theory Spec2Isabelle
  imports Main "HOL-Library.Monad_Syntax"
begin

section \<open>Values of the language\<close>

text \<open>
  The converter of \<^verbatim>\<open>lib/resource-listing.js\<close> works on decoded documents: plain
  JavaScript values. The model keeps the dynamic typing of the source.

  \<^item> \<open>Undefined\<close> is what reading a missing property gives; a property that is set
    to \<open>Undefined\<close> is still a property of its object.
  \<^item> An object \<open>Obj kvs\<close> is the list of its own enumerable properties, in the order
    in which \<^verbatim>\<open>Object.keys\<close> enumerates them; its prototype is
    \<^verbatim>\<open>Object.prototype\<close>. The first pair with a given key is the property.
  \<^item> \<open>Inherited n\<close> is the built-in value that every object inherits under the name
    \<open>n\<close> (\<^verbatim>\<open>({}).toString\<close>, \<^verbatim>\<open>({}).constructor\<close>, ...). It never occurs
    inside a decoded document, and it is truthy.
  \<^item> Numbers (IEEE doubles) are left out of the value universe.
  \<^item> A call that throws (here always a \<^verbatim>\<open>TypeError\<close>) is the result \<open>None\<close>.
\<close>

datatype jv =
    Undefined
  | Null
  | Boolean bool
  | Str string
  | Arr "jv list"
  | Obj "(string \<times> jv) list"
  | Inherited string

type_synonym props = "(string \<times> jv) list"

text \<open>ToBoolean.\<close>

fun truthy :: "jv \<Rightarrow> bool" where
  "truthy Undefined = False"
| "truthy Null = False"
| "truthy (Boolean b) = b"
| "truthy (Str s) = (s \<noteq> [])"
| "truthy (Arr xs) = True"
| "truthy (Obj kvs) = True"
| "truthy (Inherited n) = True"

fun nullish :: "jv \<Rightarrow> bool" where
  "nullish Undefined = True"
| "nullish Null = True"
| "nullish v = False"

text \<open>The decimal name of an array index.\<close>

definition digit :: "nat \<Rightarrow> char" where
  "digit d = char_of (48 + d)"

function dec :: "nat \<Rightarrow> string" where
  "dec n = (if n < 10 then [digit n] else dec (n div 10) @ [digit (n mod 10)])"
  by pat_completeness auto
termination
  by (relation "measure id") auto

declare dec.simps [simp del]

definition index_names :: "nat \<Rightarrow> string list" where
  "index_names n = map dec [0..<n]"

text \<open>
  The own enumerable properties of a value that is neither \<^verbatim>\<open>undefined\<close> nor
  \<^verbatim>\<open>null\<close>: the elements of an array and the code units of a string are properties
  named by their index.
\<close>

fun own_props :: "jv \<Rightarrow> props" where
  "own_props (Obj kvs) = kvs"
| "own_props (Arr xs) = zip (index_names (length xs)) xs"
| "own_props (Str s) = zip (index_names (length s)) (map (\<lambda>c. Str [c]) s)"
| "own_props v = []"

text \<open>
  \<^verbatim>\<open>Object.keys(v)\<close> (ECMAScript 2015 and later, where a primitive is first turned
  into an object).
\<close>

definition object_keys :: "jv \<Rightarrow> string list option" where
  "object_keys v = (if nullish v then None else Some (map fst (own_props v)))"

text \<open>The names that every object inherits from \<^verbatim>\<open>Object.prototype\<close>.\<close>

definition object_prototype_names :: "string list" where
  "object_prototype_names =
     [''constructor'', ''hasOwnProperty'', ''isPrototypeOf'', ''propertyIsEnumerable'',
      ''toLocaleString'', ''toString'', ''valueOf'', ''__proto__'',
      ''__defineGetter__'', ''__defineSetter__'', ''__lookupGetter__'', ''__lookupSetter__'']"

definition inherited :: "string \<Rightarrow> jv" where
  "inherited k = (if k \<in> set object_prototype_names then Inherited k else Undefined)"

text \<open>
  Reading a property, \<^verbatim>\<open>v.k\<close> or \<^verbatim>\<open>v[k]\<close>: a \<^verbatim>\<open>TypeError\<close> on
  \<^verbatim>\<open>undefined\<close> and \<^verbatim>\<open>null\<close>, else the own property, else what the prototype
  chain gives (\<open>field\<close> is the read on a value that is neither). The property
  \<^verbatim>\<open>length\<close> of arrays and strings is a number, not a value of the universe: the
  program reads it from a document in one condition only, modelled by
  \<open>length_truthy\<close>; of the other names that the program reads from a document, none
  is defined on the prototype of arrays, strings or booleans.
\<close>

definition field :: "jv \<Rightarrow> string \<Rightarrow> jv" where
  "field v k = (case map_of (own_props v) k of Some x \<Rightarrow> x | None \<Rightarrow> inherited k)"

definition get :: "jv \<Rightarrow> string \<Rightarrow> jv option" where
  "get v k = (if nullish v then None else Some (field v k))"

text \<open>The truth value of \<^verbatim>\<open>v.length\<close>.\<close>

fun length_truthy :: "jv \<Rightarrow> bool option" where
  "length_truthy (Arr xs) = Some (xs \<noteq> [])"
| "length_truthy (Str s) = Some (s \<noteq> [])"
| "length_truthy v = map_option truthy (get v ''length'')"

text \<open>
  The receiver of \<^verbatim>\<open>v.map(f)\<close>: the elements of an array; on any other value of a
  document \<^verbatim>\<open>v.map\<close> is not a function, and the call throws.
\<close>

fun array_elements :: "jv \<Rightarrow> jv list option" where
  "array_elements (Arr xs) = Some xs"
| "array_elements v = None"

text \<open>\<^verbatim>\<open>xs.join(sep)\<close> on an array of strings.\<close>

fun join :: "string \<Rightarrow> string list \<Rightarrow> string" where
  "join sep [] = []"
| "join sep [x] = x"
| "join sep (x # y # ys) = x @ sep @ join sep (y # ys)"

text \<open>How a built-in value prints (the text is the engine's own; this is V8's).\<close>

definition native_text :: "string \<Rightarrow> string" where
  "native_text n =
     (if n = ''__proto__'' then ''[object Object]''
      else if n = ''constructor'' then ''function Object() { [native code] }''
      else ''function '' @ n @ ''() { [native code] }'')"

text \<open>
  ToString, as string concatenation and the use of a value as a property name apply
  it. An object of a document has no callable \<^verbatim>\<open>toString\<close> of its own: if it has an
  own property of that name the conversion throws, otherwise the inherited method
  gives \<^verbatim>\<open>[object Object]\<close>. An array joins its elements with commas,
  \<^verbatim>\<open>undefined\<close> and \<^verbatim>\<open>null\<close> printing as nothing.
\<close>

fun to_string :: "jv \<Rightarrow> string option"
  and element_strings :: "jv list \<Rightarrow> string list option" where
  "to_string Undefined = Some ''undefined''"
| "to_string Null = Some ''null''"
| "to_string (Boolean b) = Some (if b then ''true'' else ''false'')"
| "to_string (Str s) = Some s"
| "to_string (Arr xs) = map_option (join '','') (element_strings xs)"
| "to_string (Obj kvs) =
     (if ''toString'' \<in> set (map fst kvs) then None else Some ''[object Object]'')"
| "to_string (Inherited n) = Some (native_text n)"
| "element_strings [] = Some []"
| "element_strings (x # xs) =
     do {
       s \<leftarrow> (if nullish x then Some [] else to_string x);
       ss \<leftarrow> element_strings xs;
       Some (s # ss)
     }"

text \<open>
  Writing a property of an object the program has built itself, \<^verbatim>\<open>o[k] = v\<close>: an
  existing property keeps its place, a new one is added last. The name
  \<^verbatim>\<open>__proto__\<close> is the accessor of \<^verbatim>\<open>Object.prototype\<close>: assigning to it never
  creates an own property.
\<close>

fun assign :: "props \<Rightarrow> string \<Rightarrow> jv \<Rightarrow> props" where
  "assign [] k v = [(k, v)]"
| "assign ((k', v') # ps) k v =
     (if k' = k then (k, v) # ps else (k', v') # assign ps k v)"

definition set_prop :: "props \<Rightarrow> string \<Rightarrow> jv \<Rightarrow> props" where
  "set_prop ps k v = (if k = ''__proto__'' then ps else assign ps k v)"

text \<open>\<^verbatim>\<open>xs.map(f)\<close> and \<^verbatim>\<open>xs.filter(p)\<close> with a callback that may throw.\<close>

fun map_each :: "('a \<Rightarrow> 'b option) \<Rightarrow> 'a list \<Rightarrow> 'b list option" where
  "map_each f [] = Some []"
| "map_each f (x # xs) =
     do {
       y \<leftarrow> f x;
       ys \<leftarrow> map_each f xs;
       Some (y # ys)
     }"

fun filter_each :: "('a \<Rightarrow> bool option) \<Rightarrow> 'a list \<Rightarrow> 'a list option" where
  "filter_each p [] = Some []"
| "filter_each p (x # xs) =
     do {
       b \<leftarrow> p x;
       ys \<leftarrow> filter_each p xs;
       Some (if b then x # ys else ys)
     }"

section \<open>The converter\<close>

definition DOCUMENTATION_NAME_MAP :: jv where
  "DOCUMENTATION_NAME_MAP = Obj
     [(''description'', Str ''Description''),
      (''termsOfServiceUrl'', Str ''Terms of Service URL''),
      (''contact'', Str ''Contact''),
      (''license'', Str ''License''),
      (''licenseUrl'', Str ''License URL'')]"

definition GRANT_TYPE_MAP :: jv where
  "GRANT_TYPE_MAP = Obj
     [(''implicit'', Str ''token''),
      (''authorization_code'', Str ''code'')]"

definition API_KEY_PASS_AS_MAP :: jv where
  "API_KEY_PASS_AS_MAP = Obj
     [(''header'', Str ''headers''),
      (''query'', Str ''queryParameters'')]"

subsection \<open>convertInfo\<close>

definition documentation_entry :: "jv \<Rightarrow> string \<Rightarrow> jv option" where
  "documentation_entry info key =
     do {
       title \<leftarrow> get DOCUMENTATION_NAME_MAP key;
       content \<leftarrow> get info key;
       Some (Obj [(''title'', title), (''content'', content)])
     }"

definition convertInfo :: "jv \<Rightarrow> props \<Rightarrow> props option" where
  "convertInfo info ramlObject =
     (if \<not> truthy info then Some ramlObject
      else do {
        keys \<leftarrow> object_keys DOCUMENTATION_NAME_MAP;
        kept \<leftarrow> filter_each (\<lambda>key. map_option truthy (get info key)) keys;
        documentation \<leftarrow> map_each (documentation_entry info) kept;
        title \<leftarrow> get info ''title'';
        let ramlObject = set_prop ramlObject ''title'' title;
        Some (if documentation \<noteq> []
              then set_prop ramlObject ''documentation'' (Arr documentation)
              else ramlObject)
      })"

subsection \<open>convertApis\<close>

definition convertApi :: "jv \<Rightarrow> jv option" where
  "convertApi api =
     do {
       path \<leftarrow> get api ''path'';
       description \<leftarrow> get api ''description'';
       Some (Obj [(''relativeUri'', path), (''description'', description)])
     }"

definition convertApis :: "jv \<Rightarrow> props \<Rightarrow> props option" where
  "convertApis apis ramlObject =
     (if \<not> truthy apis then Some ramlObject
      else do {
        elements \<leftarrow> array_elements apis;
        resources \<leftarrow> map_each convertApi elements;
        Some (set_prop ramlObject ''resources'' (Arr resources))
      })"

subsection \<open>convertOAuth2\<close>

text \<open>
  The callback of \<^verbatim>\<open>authorization.scopes.map\<close>: the name of the scope, and the line
  it pushes onto \<^verbatim>\<open>scopeDescriptions\<close>, if any.
\<close>

definition convertScope :: "jv \<Rightarrow> (jv \<times> string option) option" where
  "convertScope scope =
     do {
       name \<leftarrow> get scope ''scope'';
       description \<leftarrow> get scope ''description'';
       if truthy description
       then do {
         n \<leftarrow> to_string name;
         d \<leftarrow> to_string description;
         Some (name, Some (''* '' @ n @ '': '' @ d))
       }
       else Some (name, None)
     }"

definition scope_lines :: "(jv \<times> string option) list \<Rightarrow> string list" where
  "scope_lines rs = concat (map (\<lambda>r. case snd r of None \<Rightarrow> [] | Some l \<Rightarrow> [l]) rs)"

text \<open>The part under \<^verbatim>\<open>// Map scopes to the RAML object.\<close>\<close>

definition convertScopes :: "jv \<Rightarrow> props \<Rightarrow> string list \<Rightarrow> (props \<times> string list) option" where
  "convertScopes authorization authSettings description =
     do {
       scopes \<leftarrow> get authorization ''scopes'';
       nonempty \<leftarrow> (if truthy scopes then length_truthy scopes else Some False);
       if nonempty
       then do {
         elements \<leftarrow> array_elements scopes;
         rs \<leftarrow> map_each convertScope elements;
         let authSettings = set_prop authSettings ''scopes'' (Arr (map fst rs));
         let scopeDescriptions = scope_lines rs;
         Some (authSettings,
               if scopeDescriptions \<noteq> []
               then description @ [''Available scopes: '', join ''\<newline>'' scopeDescriptions]
               else description)
       }
       else Some (authSettings, description)
     }"

text \<open>The part under \<^verbatim>\<open>// Map grant types into the raml object.\<close>\<close>

definition convertGrantTypes :: "jv \<Rightarrow> props \<Rightarrow> props option" where
  "convertGrantTypes grantTypes authSettings =
     do {
       keys \<leftarrow> object_keys grantTypes;
       grants \<leftarrow> map_each (get GRANT_TYPE_MAP) keys;
       Some (set_prop authSettings ''authorizationGrants'' (Arr grants))
     }"

text \<open>The branch \<^verbatim>\<open>if (implicit)\<close>.\<close>

definition convertImplicit :: "jv \<Rightarrow> props \<Rightarrow> string list \<Rightarrow> (props \<times> string list) option" where
  \<open>convertImplicit implicit authSettings description =
     (if \<not> truthy implicit then Some (authSettings, description)
      else do {
        loginEndpoint \<leftarrow> get implicit ''loginEndpoint'';
        url \<leftarrow> (if truthy loginEndpoint then get loginEndpoint ''url'' else Some loginEndpoint);
        let authSettings =
          (if truthy url then set_prop authSettings ''authorizationUri'' url else authSettings);
        tokenName \<leftarrow> get implicit ''tokenName'';
        if truthy tokenName \<and> tokenName \<noteq> Str ''access_token''
        then do {
          t \<leftarrow> to_string tokenName;
          Some (authSettings,
                description @ [''The token grant uses "'' @ t @ ''" as the token name.''])
        }
        else Some (authSettings, description)
      })\<close>

text \<open>
  One of the three conditional lines of the branch \<^verbatim>\<open>if (authCode)\<close>: pushed when
  the name is truthy and differs from the default.
\<close>

definition code_grant_line :: "jv \<Rightarrow> string \<Rightarrow> string \<Rightarrow> string list \<Rightarrow> string list option" where
  \<open>code_grant_line name dflt what description =
     (if truthy name \<and> name \<noteq> Str dflt
      then do {
        n \<leftarrow> to_string name;
        Some (description @
          [''The code grant uses "'' @ n @ ''" as the parameter for passing the '' @ what @ ''.''])
      }
      else Some description)\<close>

text \<open>The branch \<^verbatim>\<open>if (authCode)\<close>.\<close>

definition convertAuthCode :: "jv \<Rightarrow> props \<Rightarrow> string list \<Rightarrow> (props \<times> string list) option" where
  "convertAuthCode authCode authSettings description =
     (if \<not> truthy authCode then Some (authSettings, description)
      else do {
        tokenEndpoint \<leftarrow> get authCode ''tokenEndpoint'';
        tokenRequestEndpoint \<leftarrow> get authCode ''tokenRequestEndpoint'';
        clientIdName \<leftarrow> get tokenRequestEndpoint ''clientIdName'';
        clientSecretName \<leftarrow> get tokenRequestEndpoint ''clientSecretName'';
        tokenName \<leftarrow> get tokenEndpoint ''tokenName'';
        accessTokenUri \<leftarrow> get tokenEndpoint ''url'';
        let authSettings = set_prop authSettings ''accessTokenUri'' accessTokenUri;
        authorizationUri \<leftarrow> get tokenRequestEndpoint ''url'';
        let authSettings = set_prop authSettings ''authorizationUri'' authorizationUri;
        description \<leftarrow> code_grant_line clientIdName ''client_id'' ''client id'' description;
        description \<leftarrow>
          code_grant_line clientSecretName ''client_secret'' ''client secret'' description;
        description \<leftarrow>
          code_grant_line tokenName ''access_code'' ''authorization token'' description;
        Some (authSettings, description)
      })"

definition convertOAuth2 :: "jv \<Rightarrow> jv option" where
  "convertOAuth2 authorization =
     do {
       grantTypes \<leftarrow> get authorization ''grantTypes'';
       implicit \<leftarrow> get grantTypes ''implicit'';
       authCode \<leftarrow> get grantTypes ''authorization_code'';
       (authSettings, description) \<leftarrow>
         convertScopes authorization [(''authorizationGrants'', Arr [])] [];
       authSettings \<leftarrow> convertGrantTypes grantTypes authSettings;
       (authSettings, description) \<leftarrow> convertImplicit implicit authSettings description;
       (authSettings, description) \<leftarrow> convertAuthCode authCode authSettings description;
       let ramlAuth = [(''type'', Str ''OAuth 2.0''), (''settings'', Obj authSettings)];
       Some (Obj (if description \<noteq> []
                  then set_prop ramlAuth ''description''
                         (Str (join ''\<newline>\<newline>'' description))
                  else ramlAuth))
     }"

subsection \<open>convertApiKey and convertBasicAuth\<close>

definition convertApiKey :: "jv \<Rightarrow> jv option" where
  "convertApiKey authorization =
     do {
       passAs \<leftarrow> get authorization ''passAs'';
       passAsName \<leftarrow> to_string passAs;
       describedBy \<leftarrow> get API_KEY_PASS_AS_MAP passAsName;
       if truthy describedBy
       then do {
         location \<leftarrow> to_string describedBy;
         keyname \<leftarrow> get authorization ''keyname'';
         name \<leftarrow> to_string keyname;
         let description = set_prop [] name
           (Obj [(''type'', Str ''string''),
                 (''description'', Str ''Used to send a valid API key for authentication.'')]);
         Some (Obj [(''type'', Str ''x-api-key''),
                    (''describedBy'', Obj (set_prop [] location (Obj description)))])
       }
       else Some (Obj [(''type'', Str ''x-api-key''), (''describedBy'', Obj [])])
     }"

definition convertBasicAuth :: "jv \<Rightarrow> jv option" where
  "convertBasicAuth authorization = Some (Obj [(''type'', Str ''Basic Authentication'')])"

subsection \<open>convertAuthorization and convertAuthorizations\<close>

text \<open>A function that falls off its end returns \<^verbatim>\<open>undefined\<close>.\<close>

definition convertAuthorization :: "jv \<Rightarrow> jv option" where
  "convertAuthorization authorization =
     do {
       type \<leftarrow> get authorization ''type'';
       if type = Str ''oauth2'' then convertOAuth2 authorization
       else if type = Str ''apiKey'' then convertApiKey authorization
       else if type = Str ''basicAuth'' then convertBasicAuth authorization
       else Some Undefined
     }"

definition named_scheme :: "jv \<Rightarrow> string \<Rightarrow> jv option" where
  "named_scheme authorizations key =
     do {
       authorization \<leftarrow> get authorizations key;
       scheme \<leftarrow> convertAuthorization authorization;
       Some (Obj (set_prop [] key scheme))
     }"

definition convertAuthorizations :: "jv \<Rightarrow> props \<Rightarrow> props option" where
  "convertAuthorizations authorizations ramlObject =
     (if \<not> truthy authorizations then Some ramlObject
      else do {
        keys \<leftarrow> object_keys authorizations;
        schemes \<leftarrow> map_each (named_scheme authorizations) keys;
        Some (set_prop ramlObject ''securitySchemes'' (Arr schemes))
      })"

subsection \<open>converter\<close>

definition converter :: "jv \<Rightarrow> jv option" where
  "converter resource =
     do {
       info \<leftarrow> get resource ''info'';
       ramlObject \<leftarrow> convertInfo info [];
       apis \<leftarrow> get resource ''apis'';
       ramlObject \<leftarrow> convertApis apis ramlObject;
       authorizations \<leftarrow> get resource ''authorizations'';
       ramlObject \<leftarrow> convertAuthorizations authorizations ramlObject;
       apiVersion \<leftarrow> get resource ''apiVersion'';
       Some (Obj (if truthy apiVersion
                  then set_prop ramlObject ''version'' apiVersion
                  else ramlObject))
     }"

section \<open>The vocabulary of the specification\<close>

text \<open>
  The recognised keys of \<^verbatim>\<open>info\<close> in their fixed order, the display-name table,
  and the documentation list as the specification describes it: the recognised keys
  with a truthy value, in table order, each as a title and a content.
\<close>

definition documentation_keys :: "string list" where
  "documentation_keys =
     [''description'', ''termsOfServiceUrl'', ''contact'', ''license'', ''licenseUrl'']"

definition display_name :: "string \<Rightarrow> string" where
  "display_name k =
     (if k = ''description'' then ''Description''
      else if k = ''termsOfServiceUrl'' then ''Terms of Service URL''
      else if k = ''contact'' then ''Contact''
      else if k = ''license'' then ''License''
      else ''License URL'')"

definition documentation_of :: "jv \<Rightarrow> jv list" where
  "documentation_of info =
     map (\<lambda>k. Obj [(''title'', Str (display_name k)), (''content'', field info k)])
       (filter (\<lambda>k. truthy (field info k)) documentation_keys)"

text \<open>The resource entry the specification gives for one entry of \<^verbatim>\<open>apis\<close>.\<close>

definition resource_of :: "jv \<Rightarrow> jv" where
  "resource_of api =
     Obj [(''relativeUri'', field api ''path''), (''description'', field api ''description'')]"

section \<open>The converter in closed form\<close>

text \<open>
  For each part of the converter: the inputs on which it does not throw, and what it
  yields on them. The properties below show that the code computes exactly this.
\<close>

definition printable :: "jv \<Rightarrow> bool" where
  "printable v = (to_string v \<noteq> None)"

definition text_of :: "jv \<Rightarrow> string" where
  "text_of v = (case to_string v of Some s \<Rightarrow> s | None \<Rightarrow> [])"

text \<open>Scopes: the condition \<^verbatim>\<open>authorization.scopes && authorization.scopes.length\<close>.\<close>

definition scopes_given :: "jv \<Rightarrow> bool" where
  "scopes_given scopes = (truthy scopes \<and> length_truthy scopes = Some True)"

definition described :: "jv \<Rightarrow> bool" where
  "described scope = truthy (field scope ''description'')"

definition scope_ok :: "jv \<Rightarrow> bool" where
  "scope_ok scope =
     (\<not> nullish scope \<and>
      (described scope \<longrightarrow>
         printable (field scope ''scope'') \<and> printable (field scope ''description'')))"

definition scope_line :: "jv \<Rightarrow> string" where
  "scope_line scope =
     ''* '' @ text_of (field scope ''scope'') @ '': '' @ text_of (field scope ''description'')"

definition scopes_ok :: "jv \<Rightarrow> bool" where
  "scopes_ok scopes =
     (scopes_given scopes \<longrightarrow>
        (case array_elements scopes of Some xs \<Rightarrow> list_all scope_ok xs | None \<Rightarrow> False))"

definition scope_names :: "jv \<Rightarrow> jv list" where
  "scope_names scopes =
     (case array_elements scopes of
        Some xs \<Rightarrow> map (\<lambda>scope. field scope ''scope'') xs
      | None \<Rightarrow> [])"

definition scope_block :: "jv \<Rightarrow> string list" where
  "scope_block scopes =
     (case array_elements scopes of
        Some xs \<Rightarrow>
          (if filter described xs = [] then []
           else [''Available scopes: '', join ''\<newline>'' (map scope_line (filter described xs))])
      | None \<Rightarrow> [])"

definition scopes_settings :: "jv \<Rightarrow> props \<Rightarrow> props" where
  "scopes_settings scopes authSettings =
     (if scopes_given scopes
      then set_prop authSettings ''scopes'' (Arr (scope_names scopes))
      else authSettings)"

definition scopes_lines :: "jv \<Rightarrow> string list" where
  "scopes_lines scopes = (if scopes_given scopes then scope_block scopes else [])"

text \<open>A parameter name that is given and is not the default.\<close>

definition overrides :: "jv \<Rightarrow> string \<Rightarrow> bool" where
  "overrides name dflt = (truthy name \<and> name \<noteq> Str dflt)"

text \<open>The implicit grant.\<close>

definition login_url :: "jv \<Rightarrow> jv" where
  "login_url implicit =
     (if truthy (field implicit ''loginEndpoint'')
      then field (field implicit ''loginEndpoint'') ''url''
      else field implicit ''loginEndpoint'')"

definition implicit_ok :: "jv \<Rightarrow> bool" where
  "implicit_ok implicit =
     (truthy implicit \<and> overrides (field implicit ''tokenName'') ''access_token''
        \<longrightarrow> printable (field implicit ''tokenName''))"

definition implicit_settings :: "jv \<Rightarrow> props \<Rightarrow> props" where
  "implicit_settings implicit authSettings =
     (if truthy implicit \<and> truthy (login_url implicit)
      then set_prop authSettings ''authorizationUri'' (login_url implicit)
      else authSettings)"

definition implicit_lines :: "jv \<Rightarrow> string list" where
  \<open>implicit_lines implicit =
     (if truthy implicit \<and> overrides (field implicit ''tokenName'') ''access_token''
      then [''The token grant uses "'' @ text_of (field implicit ''tokenName'')
            @ ''" as the token name.'']
      else [])\<close>

text \<open>The authorization-code grant.\<close>

definition override_line :: "jv \<Rightarrow> string \<Rightarrow> string \<Rightarrow> string list" where
  \<open>override_line name dflt what =
     (if overrides name dflt
      then [''The code grant uses "'' @ text_of name
            @ ''" as the parameter for passing the '' @ what @ ''.'']
      else [])\<close>

definition authCode_ok :: "jv \<Rightarrow> bool" where
  "authCode_ok authCode =
     (truthy authCode \<longrightarrow>
        (let tokenEndpoint = field authCode ''tokenEndpoint'';
             tokenRequestEndpoint = field authCode ''tokenRequestEndpoint''
         in \<not> nullish tokenEndpoint \<and> \<not> nullish tokenRequestEndpoint
            \<and> (overrides (field tokenRequestEndpoint ''clientIdName'') ''client_id''
                 \<longrightarrow> printable (field tokenRequestEndpoint ''clientIdName''))
            \<and> (overrides (field tokenRequestEndpoint ''clientSecretName'') ''client_secret''
                 \<longrightarrow> printable (field tokenRequestEndpoint ''clientSecretName''))
            \<and> (overrides (field tokenEndpoint ''tokenName'') ''access_code''
                 \<longrightarrow> printable (field tokenEndpoint ''tokenName''))))"

definition authCode_settings :: "jv \<Rightarrow> props \<Rightarrow> props" where
  "authCode_settings authCode authSettings =
     (if truthy authCode
      then set_prop
             (set_prop authSettings ''accessTokenUri''
                (field (field authCode ''tokenEndpoint'') ''url''))
             ''authorizationUri'' (field (field authCode ''tokenRequestEndpoint'') ''url'')
      else authSettings)"

definition authCode_lines :: "jv \<Rightarrow> string list" where
  "authCode_lines authCode =
     (if truthy authCode
      then override_line (field (field authCode ''tokenRequestEndpoint'') ''clientIdName'')
             ''client_id'' ''client id''
           @ override_line (field (field authCode ''tokenRequestEndpoint'') ''clientSecretName'')
               ''client_secret'' ''client secret''
           @ override_line (field (field authCode ''tokenEndpoint'') ''tokenName'')
               ''access_code'' ''authorization token''
      else [])"

text \<open>The grant list: one element per key of \<^verbatim>\<open>grantTypes\<close>, in order.\<close>

definition grant_of :: "string \<Rightarrow> jv" where
  "grant_of grantType =
     (if grantType = ''implicit'' then Str ''token''
      else if grantType = ''authorization_code'' then Str ''code''
      else inherited grantType)"

definition grants_of :: "jv \<Rightarrow> jv list" where
  "grants_of grantTypes = map grant_of (map fst (own_props grantTypes))"

text \<open>The OAuth 2.0 scheme.\<close>

definition oauth2_ok :: "jv \<Rightarrow> bool" where
  "oauth2_ok authorization =
     (\<not> nullish authorization
      \<and> \<not> nullish (field authorization ''grantTypes'')
      \<and> scopes_ok (field authorization ''scopes'')
      \<and> implicit_ok (field (field authorization ''grantTypes'') ''implicit'')
      \<and> authCode_ok (field (field authorization ''grantTypes'') ''authorization_code''))"

definition oauth2_settings :: "jv \<Rightarrow> props" where
  "oauth2_settings authorization =
     authCode_settings (field (field authorization ''grantTypes'') ''authorization_code'')
       (implicit_settings (field (field authorization ''grantTypes'') ''implicit'')
          (set_prop
             (scopes_settings (field authorization ''scopes'') [(''authorizationGrants'', Arr [])])
             ''authorizationGrants'' (Arr (grants_of (field authorization ''grantTypes'')))))"

definition oauth2_lines :: "jv \<Rightarrow> string list" where
  "oauth2_lines authorization =
     scopes_lines (field authorization ''scopes'')
     @ implicit_lines (field (field authorization ''grantTypes'') ''implicit'')
     @ authCode_lines (field (field authorization ''grantTypes'') ''authorization_code'')"

definition oauth2_of :: "jv \<Rightarrow> jv" where
  "oauth2_of authorization =
     Obj ([(''type'', Str ''OAuth 2.0''), (''settings'', Obj (oauth2_settings authorization))]
          @ (if oauth2_lines authorization = [] then []
             else [(''description'',
                    Str (join ''\<newline>\<newline>'' (oauth2_lines authorization)))]))"

text \<open>The API-key scheme.\<close>

definition location_of :: "jv \<Rightarrow> jv" where
  "location_of authorization =
     field API_KEY_PASS_AS_MAP (text_of (field authorization ''passAs''))"

definition apiKey_ok :: "jv \<Rightarrow> bool" where
  "apiKey_ok authorization =
     (\<not> nullish authorization
      \<and> printable (field authorization ''passAs'')
      \<and> (truthy (location_of authorization) \<longrightarrow> printable (field authorization ''keyname'')))"

definition apiKey_of :: "jv \<Rightarrow> jv" where
  "apiKey_of authorization =
     Obj [(''type'', Str ''x-api-key''),
          (''describedBy'',
           Obj (if truthy (location_of authorization)
                then set_prop [] (text_of (location_of authorization))
                       (Obj (set_prop [] (text_of (field authorization ''keyname''))
                          (Obj [(''type'', Str ''string''),
                                (''description'',
                                 Str ''Used to send a valid API key for authentication.'')])))
                else []))]"

text \<open>One authorization, the authorizations, the document.\<close>

definition authorization_ok :: "jv \<Rightarrow> bool" where
  "authorization_ok authorization =
     (\<not> nullish authorization
      \<and> (if field authorization ''type'' = Str ''oauth2'' then oauth2_ok authorization
           else if field authorization ''type'' = Str ''apiKey'' then apiKey_ok authorization
           else True))"

definition scheme_of :: "jv \<Rightarrow> jv" where
  "scheme_of authorization =
     (if field authorization ''type'' = Str ''oauth2'' then oauth2_of authorization
      else if field authorization ''type'' = Str ''apiKey'' then apiKey_of authorization
      else if field authorization ''type'' = Str ''basicAuth''
        then Obj [(''type'', Str ''Basic Authentication'')]
      else Undefined)"

definition authorizations_ok :: "jv \<Rightarrow> bool" where
  "authorizations_ok authorizations =
     (truthy authorizations \<longrightarrow>
        list_all (\<lambda>key. authorization_ok (field authorizations key))
          (map fst (own_props authorizations)))"

definition apis_ok :: "jv \<Rightarrow> bool" where
  "apis_ok apis =
     (truthy apis \<longrightarrow>
        (case array_elements apis of
           Some xs \<Rightarrow> list_all (\<lambda>api. \<not> nullish api) xs
         | None \<Rightarrow> False))"

definition document_ok :: "jv \<Rightarrow> bool" where
  "document_ok resource =
     (\<not> nullish resource
      \<and> apis_ok (field resource ''apis'')
      \<and> authorizations_ok (field resource ''authorizations''))"

text \<open>What \<^verbatim>\<open>convertInfo\<close> leaves in the object it is given, in closed form.\<close>

definition info_props :: "jv \<Rightarrow> props \<Rightarrow> props" where
  "info_props info ps =
     (if \<not> truthy info then ps
      else if documentation_of info = [] then set_prop ps ''title'' (field info ''title'')
      else set_prop (set_prop ps ''title'' (field info ''title''))
             ''documentation'' (Arr (documentation_of info)))"

section \<open>Properties\<close>

subsection \<open>Reading and writing properties\<close>

lemma truthy_not_nullish: "truthy v \<Longrightarrow> \<not> nullish v"
  by (cases v) auto

lemma get_Some: "\<not> nullish v \<Longrightarrow> get v k = Some (field v k)"
  by (simp add: get_def)

lemma get_eq_Some: "get v k = Some x \<longleftrightarrow> \<not> nullish v \<and> x = field v k"
  by (auto simp: get_def)

lemma get_eq_None: "get v k = None \<longleftrightarrow> nullish v"
  by (simp add: get_def)

lemma map_of_assign: "map_of (assign ps k v) = (map_of ps)(k \<mapsto> v)"
  by (induction ps) auto

lemma keys_assign: "fst ` set (assign ps k v) = insert k (fst ` set ps)"
  unfolding dom_map_of_conv_image_fst [symmetric] map_of_assign by simp

lemma map_of_set_prop:
  "k \<noteq> ''__proto__'' \<Longrightarrow> map_of (set_prop ps k v) = (map_of ps)(k \<mapsto> v)"
  by (simp add: set_prop_def map_of_assign)

lemma keys_set_prop:
  "k \<noteq> ''__proto__'' \<Longrightarrow> fst ` set (set_prop ps k v) = insert k (fst ` set ps)"
  by (simp add: set_prop_def keys_assign)

subsection \<open>Callbacks over lists\<close>

lemma map_each_total:
  "(\<And>x. x \<in> set xs \<Longrightarrow> f x = Some (g x)) \<Longrightarrow> map_each f xs = Some (map g xs)"
  by (induction xs) auto

lemma filter_each_total:
  "(\<And>x. x \<in> set xs \<Longrightarrow> p x = Some (q x)) \<Longrightarrow> filter_each p xs = Some (filter q xs)"
  by (induction xs) auto

lemma map_each_eq_None: "map_each f xs = None \<longleftrightarrow> (\<exists>x\<in>set xs. f x = None)"
  by (induction xs) (auto simp: bind_eq_None_conv)

lemma map_each_Some_map: "map_each f xs = Some ys \<Longrightarrow> ys = map (\<lambda>x. the (f x)) xs"
  by (induction xs arbitrary: ys) (auto simp: bind_eq_Some_conv)

subsection \<open>The stages of the converter\<close>

lemma keys_DOCUMENTATION_NAME_MAP: "object_keys DOCUMENTATION_NAME_MAP = Some documentation_keys"
  by (simp add: object_keys_def DOCUMENTATION_NAME_MAP_def documentation_keys_def)

lemma get_DOCUMENTATION_NAME_MAP:
  "k \<in> set documentation_keys \<Longrightarrow> get DOCUMENTATION_NAME_MAP k = Some (Str (display_name k))"
  by (auto simp: get_def field_def DOCUMENTATION_NAME_MAP_def documentation_keys_def display_name_def)

lemma documentation_entry_truthy:
  "truthy info \<Longrightarrow> k \<in> set documentation_keys \<Longrightarrow>
   documentation_entry info k = Some (Obj [(''title'', Str (display_name k)), (''content'', field info k)])"
  by (simp add: documentation_entry_def get_DOCUMENTATION_NAME_MAP get_Some truthy_not_nullish)

lemma convertInfo_truthy:
  assumes "truthy info"
  shows "convertInfo info ps =
     Some (if documentation_of info = []
           then set_prop ps ''title'' (field info ''title'')
           else set_prop (set_prop ps ''title'' (field info ''title''))
                  ''documentation'' (Arr (documentation_of info)))"
proof -
  have n: "\<not> nullish info" using assms by (rule truthy_not_nullish)
  have kept: "filter_each (\<lambda>key. Some (truthy (field info key))) documentation_keys
      = Some (filter (\<lambda>k. truthy (field info k)) documentation_keys)"
    by (rule filter_each_total) simp
  have docs: "map_each (documentation_entry info) (filter (\<lambda>k. truthy (field info k)) documentation_keys)
      = Some (documentation_of info)"
    unfolding documentation_of_def
    by (rule map_each_total) (simp add: documentation_entry_truthy assms)
  show ?thesis
    using assms by (simp add: convertInfo_def keys_DOCUMENTATION_NAME_MAP kept docs get_Some n Let_def)
qed

lemma convertInfo_falsy: "\<not> truthy info \<Longrightarrow> convertInfo info ps = Some ps"
  by (simp add: convertInfo_def)

lemma convertApi_eq: "convertApi api = (if nullish api then None else Some (resource_of api))"
  by (simp add: convertApi_def get_def resource_of_def)

lemma convertApis_falsy: "\<not> truthy apis \<Longrightarrow> convertApis apis ps = Some ps"
  by (simp add: convertApis_def)

lemma convertApis_Some:
  assumes "truthy apis" "convertApis apis ps = Some ps'"
  shows "\<exists>xs. apis = Arr xs \<and> (\<forall>x\<in>set xs. \<not> nullish x) \<and>
           ps' = set_prop ps ''resources'' (Arr (map resource_of xs))"
proof -
  from assms obtain xs where xs: "apis = Arr xs"
    by (cases apis) (auto simp: convertApis_def)
  from assms xs obtain rs where rs: "map_each convertApi xs = Some rs"
    and ps': "ps' = set_prop ps ''resources'' (Arr rs)"
    by (auto simp: convertApis_def bind_eq_Some_conv)
  from rs have nn: "\<forall>x\<in>set xs. \<not> nullish x"
    using map_each_eq_None [of convertApi xs] by (auto simp: convertApi_eq)
  then have "map_each convertApi xs = Some (map resource_of xs)"
    by (intro map_each_total) (simp add: convertApi_eq)
  with rs ps' xs nn show ?thesis by simp
qed

lemma convertAuthorizations_falsy: "\<not> truthy a \<Longrightarrow> convertAuthorizations a ps = Some ps"
  by (simp add: convertAuthorizations_def)

lemma convertAuthorizations_Some:
  assumes "truthy a" "convertAuthorizations a ps = Some ps'"
  shows "\<exists>schemes. map_each (named_scheme a) (map fst (own_props a)) = Some schemes \<and>
           ps' = set_prop ps ''securitySchemes'' (Arr schemes)"
  using assms truthy_not_nullish [OF assms(1)]
  by (auto simp: convertAuthorizations_def object_keys_def bind_eq_Some_conv)

lemma converter_Some:
  assumes "converter r = Some out"
  shows "\<exists>p1 p2 p3. \<not> nullish r
     \<and> convertInfo (field r ''info'') [] = Some p1
     \<and> convertApis (field r ''apis'') p1 = Some p2
     \<and> convertAuthorizations (field r ''authorizations'') p2 = Some p3
     \<and> out = Obj (if truthy (field r ''apiVersion'')
                   then set_prop p3 ''version'' (field r ''apiVersion'') else p3)"
  using assms by (auto simp: converter_def bind_eq_Some_conv get_eq_Some)

lemma documentation_of_empty:
  "documentation_of info = [] \<longleftrightarrow> \<not> (\<exists>k\<in>set documentation_keys. truthy (field info k))"
  by (auto simp: documentation_of_def filter_empty_conv)

lemma convertInfo_eq: "convertInfo info ps = Some (info_props info ps)"
  by (simp add: info_props_def convertInfo_truthy convertInfo_falsy)

lemma info_props_keys:
  "fst ` set (info_props info []) = (if truthy info
           then (if documentation_of info = [] then {''title''} else {''title'', ''documentation''})
           else {})"
  by (auto simp: info_props_def keys_set_prop)

lemma info_props_map_of:
  "map_of (info_props info []) = (if truthy info
           then (if documentation_of info = [] then [''title'' \<mapsto> field info ''title'']
                 else [''title'' \<mapsto> field info ''title'',
                       ''documentation'' \<mapsto> Arr (documentation_of info)])
           else Map.empty)"
  by (simp add: info_props_def map_of_set_prop)

lemma converter_fields:
  assumes "converter r = Some (Obj out)"
  shows "map_of out ''title'' =
           (if truthy (field r ''info'') then Some (field (field r ''info'') ''title'') else None)"
    and "map_of out ''documentation'' =
           (if truthy (field r ''info'') \<and> documentation_of (field r ''info'') \<noteq> []
            then Some (Arr (documentation_of (field r ''info''))) else None)"
    and "map_of out ''resources'' =
           (if truthy (field r ''apis'')
            then Some (Arr (map resource_of (the (array_elements (field r ''apis''))))) else None)"
    and "map_of out ''securitySchemes'' =
           (if truthy (field r ''authorizations'')
            then map_option Arr (map_each (named_scheme (field r ''authorizations''))
                                   (map fst (own_props (field r ''authorizations''))))
            else None)"
    and "map_of out ''version'' =
           (if truthy (field r ''apiVersion'') then Some (field r ''apiVersion'') else None)"
    and "fst ` set out \<subseteq>
           {''title'', ''documentation'', ''resources'', ''securitySchemes'', ''version''}"
proof -
  from converter_Some [OF assms] obtain p1 p2 p3 where
    p1: "p1 = info_props (field r ''info'') []" and
    p2: "convertApis (field r ''apis'') p1 = Some p2" and
    p3: "convertAuthorizations (field r ''authorizations'') p2 = Some p3" and
    out: "out = (if truthy (field r ''apiVersion'')
                 then set_prop p3 ''version'' (field r ''apiVersion'') else p3)"
    by (auto simp: convertInfo_eq)
  have e2: "map_of p2 = (if truthy (field r ''apis'')
       then (map_of p1)(''resources'' \<mapsto>
              Arr (map resource_of (the (array_elements (field r ''apis'')))))
       else map_of p1)"
  proof (cases "truthy (field r ''apis'')")
    case True
    from convertApis_Some [OF True p2] obtain xs where
      "field r ''apis'' = Arr xs" "p2 = set_prop p1 ''resources'' (Arr (map resource_of xs))"
      by blast
    with True show ?thesis by (simp add: map_of_set_prop)
  next
    case False
    with p2 show ?thesis by (simp add: convertApis_falsy)
  qed
  have s3: "map_each (named_scheme (field r ''authorizations''))
         (map fst (own_props (field r ''authorizations''))) \<noteq> None"
    if "truthy (field r ''authorizations'')"
    using convertAuthorizations_Some [OF that p3] by auto
  have e3: "map_of p3 = (if truthy (field r ''authorizations'')
       then (map_of p2)(''securitySchemes'' \<mapsto>
              Arr (the (map_each (named_scheme (field r ''authorizations''))
                          (map fst (own_props (field r ''authorizations''))))))
       else map_of p2)"
  proof (cases "truthy (field r ''authorizations'')")
    case True
    from convertAuthorizations_Some [OF True p3] obtain schemes where
      "map_each (named_scheme (field r ''authorizations''))
         (map fst (own_props (field r ''authorizations''))) = Some schemes"
      "p3 = set_prop p2 ''securitySchemes'' (Arr schemes)"
      by blast
    with True show ?thesis by (simp add: map_of_set_prop)
  next
    case False
    with p3 show ?thesis by (simp add: convertAuthorizations_falsy)
  qed
  have e4: "map_of out = (if truthy (field r ''apiVersion'')
       then (map_of p3)(''version'' \<mapsto> field r ''apiVersion'') else map_of p3)"
    by (simp add: out map_of_set_prop)
  show "map_of out ''title'' =
           (if truthy (field r ''info'') then Some (field (field r ''info'') ''title'') else None)"
    by (simp add: e4 e3 e2 p1 info_props_map_of)
  show "map_of out ''documentation'' =
           (if truthy (field r ''info'') \<and> documentation_of (field r ''info'') \<noteq> []
            then Some (Arr (documentation_of (field r ''info''))) else None)"
    by (simp add: e4 e3 e2 p1 info_props_map_of)
  show "map_of out ''resources'' =
           (if truthy (field r ''apis'')
            then Some (Arr (map resource_of (the (array_elements (field r ''apis''))))) else None)"
    by (simp add: e4 e3 e2 p1 info_props_map_of)
  show "map_of out ''securitySchemes'' =
           (if truthy (field r ''authorizations'')
            then map_option Arr (map_each (named_scheme (field r ''authorizations''))
                                   (map fst (own_props (field r ''authorizations''))))
            else None)"
    using s3 by (auto simp add: e4 e3 e2 p1 info_props_map_of)
  show "map_of out ''version'' =
           (if truthy (field r ''apiVersion'') then Some (field r ''apiVersion'') else None)"
    by (simp add: e4 e3 e2 p1 info_props_map_of)
  have "dom (map_of out) \<subseteq>
           {''title'', ''documentation'', ''resources'', ''securitySchemes'', ''version''}"
    by (auto simp add: e4 e3 e2 p1 info_props_map_of split: if_splits)
  then show "fst ` set out \<subseteq>
           {''title'', ''documentation'', ''resources'', ''securitySchemes'', ''version''}"
    by (simp add: dom_map_of_conv_image_fst)
qed

lemma key_present: "k \<in> fst ` set ps \<longleftrightarrow> map_of ps k \<noteq> None"
  by (simp add: map_of_eq_None_iff)

lemma field_Obj_cong: "map_of ps = map_of ps' \<Longrightarrow> field (Obj ps) k = field (Obj ps') k"
  by (simp add: field_def)

lemma convertInfo_same_properties:
  assumes "map_of ps = map_of ps'"
  shows "convertInfo (Obj ps) ramlObject = convertInfo (Obj ps') ramlObject"
proof -
  have "field (Obj ps) = field (Obj ps')"
    by (rule ext) (rule field_Obj_cong [OF assms])
  then show ?thesis
    by (simp add: convertInfo_eq info_props_def documentation_of_def)
qed

lemma convertAuthorizations_eq_None:
  "convertAuthorizations a ps = None \<longleftrightarrow>
     truthy a \<and> (\<exists>k\<in>set (map fst (own_props a)). named_scheme a k = None)"
  by (auto simp: convertAuthorizations_def object_keys_def bind_eq_None_conv map_each_eq_None
      dest: truthy_not_nullish)

lemma converter_eq_None:
  "converter r = None \<longleftrightarrow>
     nullish r \<or> convertApis (field r ''apis'') (info_props (field r ''info'') []) = None
     \<or> convertAuthorizations (field r ''authorizations'')
          (the (convertApis (field r ''apis'') (info_props (field r ''info'') []))) = None"
  by (auto simp: converter_def bind_eq_None_conv get_def convertInfo_eq)

lemma map_each_nth:
  "map_each f xs = Some ys \<Longrightarrow> length ys = length xs \<and> (\<forall>i<length xs. f (xs ! i) = Some (ys ! i))"
proof (induction xs arbitrary: ys)
  case Nil
  then show ?case by simp
next
  case (Cons x xs)
  then obtain y ys' where "f x = Some y" "map_each f xs = Some ys'" "ys = y # ys'"
    by (auto simp: bind_eq_Some_conv)
  with Cons.IH [of ys'] show ?case
    by (auto simp: nth_Cons split: nat.splits)
qed

lemma convertAuthorization_unrecognised:
  assumes "\<not> nullish a"
    and "field a ''type'' \<notin> {Str ''oauth2'', Str ''apiKey'', Str ''basicAuth''}"
  shows "convertAuthorization a = Some Undefined"
  using assms by (simp add: convertAuthorization_def get_Some)

subsection \<open>The OAuth 2.0 scheme in closed form\<close>

lemma to_string_text: "printable v \<Longrightarrow> to_string v = Some (text_of v)"
  by (auto simp: printable_def text_of_def)

lemma to_string_None: "\<not> printable v \<Longrightarrow> to_string v = None"
  by (simp add: printable_def)

lemma convertScope_eq:
  "convertScope s =
     (if scope_ok s
      then Some (field s ''scope'', if described s then Some (scope_line s) else None)
      else None)"
  by (cases "nullish s"; cases "printable (field s ''scope'')";
      cases "printable (field s ''description'')")
     (simp_all add: convertScope_def scope_ok_def described_def scope_line_def get_def
        to_string_text to_string_None)

lemma map_each_convertScope:
  "map_each convertScope xs =
     (if list_all scope_ok xs
      then Some (map (\<lambda>s. (field s ''scope'', if described s then Some (scope_line s) else None)) xs)
      else None)"
  by (induction xs) (simp_all add: convertScope_eq)

lemma scope_lines_map:
  "scope_lines (map (\<lambda>s. (field s ''scope'', if described s then Some (scope_line s) else None)) xs)
     = map scope_line (filter described xs)"
  by (induction xs) (simp_all add: scope_lines_def)

lemma length_truthy_total: "\<not> nullish v \<Longrightarrow> \<exists>b. length_truthy v = Some b"
  by (cases v) (simp_all add: get_def)

lemma convertScopes_eq:
  assumes "\<not> nullish a"
  shows "convertScopes a st d =
     (if scopes_ok (field a ''scopes'')
      then Some (scopes_settings (field a ''scopes'') st, d @ scopes_lines (field a ''scopes''))
      else None)"
proof (cases "scopes_given (field a ''scopes'')")
  case False
  then have "(if truthy (field a ''scopes'') then length_truthy (field a ''scopes'') else Some False)
      = Some False"
    using length_truthy_total [OF truthy_not_nullish, of "field a ''scopes''"]
    by (cases "truthy (field a ''scopes'')") (auto simp: scopes_given_def)
  with False assms show ?thesis
    by (simp add: convertScopes_def get_Some scopes_ok_def scopes_settings_def scopes_lines_def)
next
  case True
  then have c: "(if truthy (field a ''scopes'') then length_truthy (field a ''scopes'') else Some False)
      = Some True"
    by (simp add: scopes_given_def)
  show ?thesis
  proof (cases "array_elements (field a ''scopes'')")
    case None
    with True c assms show ?thesis
      by (simp add: convertScopes_def get_Some scopes_ok_def)
  next
    case (Some xs)
    with True c assms show ?thesis
      by (simp add: convertScopes_def get_Some scopes_ok_def scopes_settings_def scopes_lines_def
          scope_block_def scope_names_def map_each_convertScope scope_lines_map Let_def comp_def)
  qed
qed

lemma field_GRANT_TYPE_MAP: "field GRANT_TYPE_MAP k = grant_of k"
  by (simp add: field_def GRANT_TYPE_MAP_def grant_of_def)

lemma convertGrantTypes_eq:
  "convertGrantTypes g st =
     (if nullish g then None
      else Some (set_prop st ''authorizationGrants'' (Arr (grants_of g))))"
proof -
  have "map_each (get GRANT_TYPE_MAP) ks = Some (map grant_of ks)" for ks
    by (rule map_each_total) (simp add: get_def GRANT_TYPE_MAP_def field_GRANT_TYPE_MAP [unfolded GRANT_TYPE_MAP_def])
  then show ?thesis
    by (simp add: convertGrantTypes_def object_keys_def grants_of_def)
qed

lemma convertImplicit_eq:
  "convertImplicit i st d =
     (if implicit_ok i then Some (implicit_settings i st, d @ implicit_lines i) else None)"
proof (cases "truthy i")
  case False
  then show ?thesis
    by (simp add: convertImplicit_def implicit_ok_def implicit_settings_def implicit_lines_def)
next
  case True
  then have n: "\<not> nullish i" by (rule truthy_not_nullish)
  have u: "(if truthy (field i ''loginEndpoint'')
            then get (field i ''loginEndpoint'') ''url''
            else Some (field i ''loginEndpoint'')) = Some (login_url i)"
    by (simp add: login_url_def get_Some truthy_not_nullish)
  show ?thesis
    using True
    by (cases "printable (field i ''tokenName'')")
       (simp_all add: convertImplicit_def get_Some n u implicit_ok_def implicit_settings_def
          implicit_lines_def overrides_def Let_def to_string_text to_string_None)
qed

lemma code_grant_line_eq:
  "code_grant_line name dflt what d =
     (if overrides name dflt \<longrightarrow> printable name then Some (d @ override_line name dflt what)
      else None)"
  by (cases "printable name")
     (simp_all add: code_grant_line_def override_line_def overrides_def to_string_text to_string_None)

lemma convertAuthCode_eq:
  "convertAuthCode c st d =
     (if authCode_ok c then Some (authCode_settings c st, d @ authCode_lines c) else None)"
proof (cases "truthy c")
  case False
  then show ?thesis
    by (simp add: convertAuthCode_def authCode_ok_def authCode_settings_def authCode_lines_def)
next
  case True
  then have n: "\<not> nullish c" by (rule truthy_not_nullish)
  show ?thesis
    using True
    by (cases "nullish (field c ''tokenEndpoint'')"; cases "nullish (field c ''tokenRequestEndpoint'')")
       (simp_all add: convertAuthCode_def get_Some n get_def authCode_ok_def authCode_settings_def
          authCode_lines_def code_grant_line_eq Let_def)
qed

subsection \<open>The schemes and the document in closed form\<close>

lemma convertOAuth2_eq:
  "convertOAuth2 a = (if oauth2_ok a then Some (oauth2_of a) else None)"
proof (cases "nullish a \<or> nullish (field a ''grantTypes'')")
  case True
  then show ?thesis
    by (auto simp: convertOAuth2_def get_def oauth2_ok_def)
next
  case False
  then have a: "\<not> nullish a" and g: "\<not> nullish (field a ''grantTypes'')"
    by simp_all
  show ?thesis
    by (simp add: convertOAuth2_def get_Some a g convertScopes_eq [OF a] convertGrantTypes_eq
        convertImplicit_eq convertAuthCode_eq oauth2_ok_def oauth2_of_def oauth2_settings_def
        oauth2_lines_def set_prop_def)
qed

lemma printable_location: "printable (location_of a)"
  by (simp add: location_of_def field_def API_KEY_PASS_AS_MAP_def inherited_def printable_def)

lemma convertApiKey_eq:
  "convertApiKey a = (if apiKey_ok a then Some (apiKey_of a) else None)"
proof (cases "nullish a")
  case True
  then show ?thesis by (simp add: convertApiKey_def get_def apiKey_ok_def)
next
  case False
  show ?thesis
  proof (cases "printable (field a ''passAs'')")
    case p: False
    with False show ?thesis
      by (simp add: convertApiKey_def get_Some apiKey_ok_def to_string_None)
  next
    case p: True
    have m: "\<not> nullish API_KEY_PASS_AS_MAP" by (simp add: API_KEY_PASS_AS_MAP_def)
    have l: "get API_KEY_PASS_AS_MAP (text_of (field a ''passAs'')) = Some (location_of a)"
      by (simp add: get_Some m location_of_def)
    show ?thesis
      using False p
      by (cases "printable (field a ''keyname'')")
         (simp_all add: convertApiKey_def get_Some apiKey_ok_def apiKey_of_def to_string_text
            to_string_None l printable_location Let_def)
  qed
qed

lemma convertAuthorization_eq:
  "convertAuthorization a = (if authorization_ok a then Some (scheme_of a) else None)"
  by (cases "nullish a")
     (simp_all add: convertAuthorization_def get_def authorization_ok_def scheme_of_def
        convertOAuth2_eq convertApiKey_eq convertBasicAuth_def)

lemma named_scheme_eq:
  "\<not> nullish v \<Longrightarrow> named_scheme v k =
     (if authorization_ok (field v k) then Some (Obj (set_prop [] k (scheme_of (field v k))))
      else None)"
  by (simp add: named_scheme_def get_Some convertAuthorization_eq)

lemma list_all_map_each:
  "(\<And>x. f x = (if p x then Some (g x) else None)) \<Longrightarrow>
   map_each f xs = (if list_all p xs then Some (map g xs) else None)"
  by (induction xs) simp_all

lemma convertAuthorizations_eq_None_iff:
  "convertAuthorizations v ps = None \<longleftrightarrow> \<not> authorizations_ok v"
proof (cases "truthy v")
  case False
  then show ?thesis by (simp add: convertAuthorizations_def authorizations_ok_def)
next
  case True
  then have n: "\<not> nullish v" by (rule truthy_not_nullish)
  have "map_each (named_scheme v) ks =
     (if list_all (\<lambda>k. authorization_ok (field v k)) ks
      then Some (map (\<lambda>k. Obj (set_prop [] k (scheme_of (field v k)))) ks) else None)" for ks
    by (rule list_all_map_each) (simp add: named_scheme_eq [OF n])
  with True n show ?thesis
    by (simp add: convertAuthorizations_def object_keys_def authorizations_ok_def)
qed

lemma convertApis_eq_None_iff: "convertApis v ps = None \<longleftrightarrow> \<not> apis_ok v"
proof (cases "truthy v")
  case False
  then show ?thesis by (simp add: convertApis_def apis_ok_def)
next
  case True
  have "map_each convertApi xs =
     (if list_all (\<lambda>api. \<not> nullish api) xs then Some (map resource_of xs) else None)" for xs
    by (rule list_all_map_each) (simp add: convertApi_eq)
  with True show ?thesis
    by (cases "array_elements v") (simp_all add: convertApis_def apis_ok_def)
qed

lemma converter_eq_None_iff: "converter r = None \<longleftrightarrow> \<not> document_ok r"
proof (cases "apis_ok (field r ''apis'')")
  case False
  then show ?thesis
    by (simp add: converter_eq_None document_ok_def convertApis_eq_None_iff)
next
  case True
  then show ?thesis
    by (simp add: converter_eq_None document_ok_def convertApis_eq_None_iff
        convertAuthorizations_eq_None_iff)
qed

lemma converter_Obj: "converter r = Some v \<Longrightarrow> \<exists>out. v = Obj out"
  by (auto simp: converter_def bind_eq_Some_conv)

subsection \<open>Reading the OAuth 2.0 scheme\<close>

lemma field_Obj: "map_of ps k = Some v \<Longrightarrow> field (Obj ps) k = v"
  by (simp add: field_def)

lemma field_oauth2_settings: "field (oauth2_of a) ''settings'' = Obj (oauth2_settings a)"
  by (simp add: oauth2_of_def field_def)

lemma field_oauth2_description:
  "field (oauth2_of a) ''description'' =
     (if oauth2_lines a = [] then Undefined
      else Str (join ''\<newline>\<newline>'' (oauth2_lines a)))"
  by (simp add: oauth2_of_def field_def inherited_def object_prototype_names_def)

lemma map_of_oauth2_settings_grants:
  "map_of (oauth2_settings a) ''authorizationGrants'' =
     Some (Arr (grants_of (field a ''grantTypes'')))"
  by (simp add: oauth2_settings_def authCode_settings_def implicit_settings_def map_of_set_prop)

lemma map_of_oauth2_settings_scopes:
  "map_of (oauth2_settings a) ''scopes'' =
     (if scopes_given (field a ''scopes'') then Some (Arr (scope_names (field a ''scopes'')))
      else None)"
  by (simp add: oauth2_settings_def authCode_settings_def implicit_settings_def map_of_set_prop
      scopes_settings_def)

lemma map_of_authCode_settings_uri:
  "truthy c \<Longrightarrow> map_of (authCode_settings c st) ''authorizationUri'' =
     Some (field (field c ''tokenRequestEndpoint'') ''url'')"
  by (simp add: authCode_settings_def map_of_set_prop)

lemma map_of_implicit_settings_uri:
  "truthy i \<Longrightarrow> truthy (field i ''loginEndpoint'') \<Longrightarrow>
   truthy (field (field i ''loginEndpoint'') ''url'') \<Longrightarrow>
   map_of (implicit_settings i st) ''authorizationUri'' =
     Some (field (field i ''loginEndpoint'') ''url'')"
  by (simp add: implicit_settings_def login_url_def map_of_set_prop)

lemma field_nullish: "nullish v \<Longrightarrow> k \<notin> set object_prototype_names \<Longrightarrow> field v k = Undefined"
  by (cases v) (simp_all add: field_def inherited_def)

section \<open>The claims\<close>

subsection \<open>C3: the empty document\<close>

text \<open>
  C3 says that \<^verbatim>\<open>convert({})\<close> is a document whose only key is \<^verbatim>\<open>title\<close>, with
  the value \<^verbatim>\<open>undefined\<close>. The code returns from \<^verbatim>\<open>convertInfo\<close> before the
  assignment of the title when \<^verbatim>\<open>info\<close> is absent: the result is not that
  document.
\<close>

theorem empty_document_counterexample:
  "converter (Obj []) \<noteq> Some (Obj [(''title'', Undefined)])"
  by code_simp

text \<open>
  C3, as amended: \<^verbatim>\<open>convert({})\<close> is the empty document, with no key at all; the
  document whose only key is \<^verbatim>\<open>title\<close>, set to \<^verbatim>\<open>undefined\<close>, is what the
  converter gives for a document whose \<^verbatim>\<open>info\<close> is present and empty.
\<close>

theorem empty_document:
  "converter (Obj []) = Some (Obj [])
   \<and> converter (Obj [(''info'', Obj [])]) = Some (Obj [(''title'', Undefined)])"
  by code_simp

subsection \<open>C2: which target fields are present\<close>

text \<open>
  C2 says that an absent source field never leaves an empty or undefined placeholder,
  with the examples of an \<^verbatim>\<open>apis\<close> entry without description and of an
  \<^verbatim>\<open>info\<close> without title. Both examples fail: the resource entry has the key
  \<^verbatim>\<open>description\<close> and the document has the key \<^verbatim>\<open>title\<close>, each set to
  \<^verbatim>\<open>undefined\<close>.
\<close>

theorem target_fields_counterexample:
  "converter (Obj [(''info'', Obj []), (''apis'', Arr [Obj [(''path'', Str ''/pets'')]])]) =
   Some (Obj [(''title'', Undefined),
              (''resources'', Arr [Obj [(''relativeUri'', Str ''/pets''),
                                        (''description'', Undefined)]])])"
  by code_simp

text \<open>
  C2, as amended: whenever the converter returns a document, its keys are among
  \<^verbatim>\<open>title\<close>, \<^verbatim>\<open>documentation\<close>, \<^verbatim>\<open>resources\<close>, \<^verbatim>\<open>securitySchemes\<close> and
  \<^verbatim>\<open>version\<close>; \<^verbatim>\<open>documentation\<close> is present exactly when \<^verbatim>\<open>info\<close> is truthy
  and one of its recognised fields is truthy, and it is never the empty list;
  \<^verbatim>\<open>resources\<close>, \<^verbatim>\<open>securitySchemes\<close> and \<^verbatim>\<open>version\<close> are present exactly when
  \<^verbatim>\<open>apis\<close>, \<^verbatim>\<open>authorizations\<close> and \<^verbatim>\<open>apiVersion\<close> are truthy. But
  \<^verbatim>\<open>title\<close> is present whenever \<^verbatim>\<open>info\<close> is truthy, with the value of
  \<^verbatim>\<open>info.title\<close> even when that is \<^verbatim>\<open>undefined\<close>, and every resource entry has
  both keys \<^verbatim>\<open>relativeUri\<close> and \<^verbatim>\<open>description\<close>, with the values of
  \<^verbatim>\<open>path\<close> and \<^verbatim>\<open>description\<close> of its source entry even when they are
  \<^verbatim>\<open>undefined\<close>.
\<close>

theorem target_fields_follow_source:
  assumes "converter resource = Some (Obj out)"
  shows "(''title'' \<in> fst ` set out \<longleftrightarrow> truthy (field resource ''info''))
    \<and> (''documentation'' \<in> fst ` set out \<longleftrightarrow>
         truthy (field resource ''info'') \<and>
         (\<exists>k\<in>set documentation_keys. truthy (field (field resource ''info'') k)))
    \<and> (''resources'' \<in> fst ` set out \<longleftrightarrow> truthy (field resource ''apis''))
    \<and> (''securitySchemes'' \<in> fst ` set out \<longleftrightarrow> truthy (field resource ''authorizations''))
    \<and> (''version'' \<in> fst ` set out \<longleftrightarrow> truthy (field resource ''apiVersion''))
    \<and> fst ` set out \<subseteq> {''title'', ''documentation'', ''resources'', ''securitySchemes'', ''version''}
    \<and> map_of out ''documentation'' \<noteq> Some (Arr [])
    \<and> (truthy (field resource ''info'') \<longrightarrow>
         map_of out ''title'' = Some (field (field resource ''info'') ''title''))
    \<and> (truthy (field resource ''apis'') \<longrightarrow>
         (\<exists>xs. field resource ''apis'' = Arr xs
            \<and> map_of out ''resources'' =
                Some (Arr (map (\<lambda>api. Obj [(''relativeUri'', field api ''path''),
                                           (''description'', field api ''description'')]) xs))))"
proof -
  note f = converter_fields [OF assms]
  have apis: "\<exists>xs. field resource ''apis'' = Arr xs" if "truthy (field resource ''apis'')"
  proof -
    from converter_Some [OF assms] obtain p1 p2 where
      "convertApis (field resource ''apis'') p1 = Some p2" by blast
    from convertApis_Some [OF that this] show ?thesis by blast
  qed
  have sec: "map_of out ''securitySchemes'' \<noteq> None \<longleftrightarrow> truthy (field resource ''authorizations'')"
  proof (cases "truthy (field resource ''authorizations'')")
    case True
    from converter_Some [OF assms] obtain p2 p3 where
      "convertAuthorizations (field resource ''authorizations'') p2 = Some p3" by blast
    from convertAuthorizations_Some [OF True this] True show ?thesis
      by (auto simp: f(4))
  next
    case False
    then show ?thesis by (simp add: f(4))
  qed
  have res: "resource_of = (\<lambda>api. Obj [(''relativeUri'', field api ''path''),
                                           (''description'', field api ''description'')])"
    by (rule ext) (simp add: resource_of_def)
  show ?thesis
    using apis sec f(6)
    by (auto simp: key_present f(1,2,3,5) documentation_of_empty res [symmetric])
qed

theorem target_fields_follow_source_witness:
  "converter (Obj [(''info'', Obj [(''license'', Str ''MIT'')]), (''apiVersion'', Str ''1.0'')]) =
     Some (Obj [(''title'', Undefined),
                (''documentation'', Arr [Obj [(''title'', Str ''License''),
                                              (''content'', Str ''MIT'')]]),
                (''version'', Str ''1.0'')])
   \<and> ''resources'' \<notin> fst ` set [(''title'', Undefined),
                (''documentation'', Arr [Obj [(''title'', Str ''License''),
                                              (''content'', Str ''MIT'')]]),
                (''version'', Str ''1.0'')]"
proof -
  have h: "converter (Obj [(''info'', Obj [(''license'', Str ''MIT'')]), (''apiVersion'', Str ''1.0'')]) =
     Some (Obj [(''title'', Undefined),
                (''documentation'', Arr [Obj [(''title'', Str ''License''),
                                              (''content'', Str ''MIT'')]]),
                (''version'', Str ''1.0'')])"
    by code_simp
  from target_fields_follow_source [OF h] have
    "''resources'' \<in> fst ` set [(''title'', Undefined),
                (''documentation'', Arr [Obj [(''title'', Str ''License''),
                                              (''content'', Str ''MIT'')]]),
                (''version'', Str ''1.0'')] \<longleftrightarrow>
     truthy (field (Obj [(''info'', Obj [(''license'', Str ''MIT'')]), (''apiVersion'', Str ''1.0'')])
               ''apis'')"
    by blast
  then show ?thesis using h by (simp add: field_def inherited_def object_prototype_names_def)
qed

subsection \<open>C9: the documentation list\<close>

text \<open>
  C9: whenever the converter returns a document, \<^verbatim>\<open>documentation\<close> is one of its
  keys if and only if \<^verbatim>\<open>info\<close> is present (truthy) and one of the five recognised
  fields of \<^verbatim>\<open>info\<close> has a truthy value; its value is then the list of the
  recognised keys with a truthy value, in the order of the table, each as a title
  (from the display-name table) and a content (the value of the field). The order
  of the keys inside \<^verbatim>\<open>info\<close> has no influence: two \<^verbatim>\<open>info\<close> objects with the
  same properties give the same result.
\<close>

theorem documentation_iff_recognised_field:
  assumes "converter resource = Some (Obj out)"
  shows "(''documentation'' \<in> fst ` set out \<longleftrightarrow>
           truthy (field resource ''info'') \<and>
           (\<exists>k\<in>set documentation_keys. truthy (field (field resource ''info'') k)))
    \<and> (''documentation'' \<in> fst ` set out \<longrightarrow>
         map_of out ''documentation'' =
           Some (Arr (map (\<lambda>k. Obj [(''title'', Str (display_name k)),
                                     (''content'', field (field resource ''info'') k)])
                        (filter (\<lambda>k. truthy (field (field resource ''info'') k))
                           documentation_keys))))
    \<and> (\<forall>ps ps' ramlObject. map_of ps = map_of ps' \<longrightarrow>
         convertInfo (Obj ps) ramlObject = convertInfo (Obj ps') ramlObject)"
proof (intro conjI allI impI)
  show "''documentation'' \<in> fst ` set out \<longleftrightarrow>
           truthy (field resource ''info'') \<and>
           (\<exists>k\<in>set documentation_keys. truthy (field (field resource ''info'') k))"
    by (simp add: key_present converter_fields(2) [OF assms] documentation_of_empty)
next
  assume "''documentation'' \<in> fst ` set out"
  then show "map_of out ''documentation'' =
           Some (Arr (map (\<lambda>k. Obj [(''title'', Str (display_name k)),
                                     (''content'', field (field resource ''info'') k)])
                        (filter (\<lambda>k. truthy (field (field resource ''info'') k))
                           documentation_keys)))"
    unfolding key_present converter_fields(2) [OF assms] documentation_of_def
    by (simp split: if_splits)
next
  fix ps ps' :: props and ramlObject
  assume "map_of ps = map_of ps'"
  then show "convertInfo (Obj ps) ramlObject = convertInfo (Obj ps') ramlObject"
    by (rule convertInfo_same_properties)
qed

text \<open>C9 at a document whose \<^verbatim>\<open>info\<close> lists its fields in another order than the table.\<close>

theorem documentation_iff_recognised_field_witness:
  "converter (Obj [(''info'', Obj [(''licenseUrl'', Str ''http://l''), (''contact'', Str ''''),
                                   (''description'', Str ''Pets'')])]) =
     Some (Obj [(''title'', Undefined),
                (''documentation'',
                 Arr [Obj [(''title'', Str ''Description''), (''content'', Str ''Pets'')],
                      Obj [(''title'', Str ''License URL''), (''content'', Str ''http://l'')]])])
   \<and> map_of [(''title'', Undefined),
                (''documentation'',
                 Arr [Obj [(''title'', Str ''Description''), (''content'', Str ''Pets'')],
                      Obj [(''title'', Str ''License URL''), (''content'', Str ''http://l'')]])]
         ''documentation'' =
       Some (Arr (map (\<lambda>k. Obj [(''title'', Str (display_name k)),
                 (''content'', field (Obj [(''licenseUrl'', Str ''http://l''), (''contact'', Str ''''),
                                   (''description'', Str ''Pets'')]) k)])
          (filter (\<lambda>k. truthy (field (Obj [(''licenseUrl'', Str ''http://l''), (''contact'', Str ''''),
                                   (''description'', Str ''Pets'')]) k)) documentation_keys)))"
proof -
  have h: "converter (Obj [(''info'', Obj [(''licenseUrl'', Str ''http://l''), (''contact'', Str ''''),
                                   (''description'', Str ''Pets'')])]) =
     Some (Obj [(''title'', Undefined),
                (''documentation'',
                 Arr [Obj [(''title'', Str ''Description''), (''content'', Str ''Pets'')],
                      Obj [(''title'', Str ''License URL''), (''content'', Str ''http://l'')]])])"
    by code_simp
  have i: "field (Obj [(''info'', Obj [(''licenseUrl'', Str ''http://l''), (''contact'', Str ''''),
                                   (''description'', Str ''Pets'')])]) ''info'' =
           Obj [(''licenseUrl'', Str ''http://l''), (''contact'', Str ''''),
                                   (''description'', Str ''Pets'')]"
    by (simp add: field_def)
  note t = documentation_iff_recognised_field [OF h, THEN conjunct2, THEN conjunct1]
  show ?thesis
    using h t unfolding i by simp
qed

subsection \<open>C4: an authorization of an unrecognised type\<close>

text \<open>
  C4 says that every entry of \<^verbatim>\<open>authorizations\<close> whose type is none of
  \<^verbatim>\<open>oauth2\<close>, \<^verbatim>\<open>apiKey\<close> and \<^verbatim>\<open>basicAuth\<close> gives a named entry with an
  undefined scheme. The entry is built by \<^verbatim>\<open>data[key] = ...\<close> on a fresh object,
  and for the key \<^verbatim>\<open>__proto__\<close> (an own property of a document decoded by
  \<^verbatim>\<open>JSON.parse\<close>) that assignment reaches the accessor of
  \<^verbatim>\<open>Object.prototype\<close>: the element of the list is an object with no property.
\<close>

theorem unrecognised_type_counterexample:
  "converter (Obj [(''authorizations'', Obj [(''__proto__'', Obj [(''type'', Str ''digest'')])])]) =
     Some (Obj [(''securitySchemes'', Arr [Obj []])])"
  by code_simp

text \<open>
  C4, as amended: for an entry of \<^verbatim>\<open>authorizations\<close> under a key other than
  \<^verbatim>\<open>__proto__\<close>, whose value is an object with a type that is none of
  \<^verbatim>\<open>oauth2\<close>, \<^verbatim>\<open>apiKey\<close> and \<^verbatim>\<open>basicAuth\<close>: the entry converts, without
  error, to the object with the single property \<open>key\<close> set to \<^verbatim>\<open>undefined\<close>;
  whenever the converter returns a document, \<^verbatim>\<open>securitySchemes\<close> has one element per
  key of \<^verbatim>\<open>authorizations\<close> and that object is the element at the position of the
  key; and when the converter throws, the cause is the document itself, its
  \<^verbatim>\<open>apis\<close>, or the entry under another key.
\<close>

theorem unrecognised_type_gives_named_undefined:
  assumes auths: "field resource ''authorizations'' = authorizations" "truthy authorizations"
    and keys: "object_keys authorizations = Some keys"
    and i: "i < length keys" "key = keys ! i"
    and key: "key \<noteq> ''__proto__''"
    and entry: "\<not> nullish (field authorizations key)"
    and type: "field (field authorizations key) ''type'' \<notin>
                 {Str ''oauth2'', Str ''apiKey'', Str ''basicAuth''}"
  shows "named_scheme authorizations key = Some (Obj [(key, Undefined)])
    \<and> (\<forall>out. converter resource = Some (Obj out) \<longrightarrow>
          (\<exists>schemes. map_of out ''securitySchemes'' = Some (Arr schemes)
             \<and> length schemes = length keys
             \<and> schemes ! i = Obj [(key, Undefined)]))
    \<and> (converter resource = None \<longrightarrow>
          nullish resource
          \<or> (\<exists>ps. convertApis (field resource ''apis'') ps = None)
          \<or> (\<exists>j<length keys. keys ! j \<noteq> key
                 \<and> named_scheme authorizations (keys ! j) = None))"
proof (intro conjI allI impI)
  have nn: "\<not> nullish authorizations"
    using auths(2) by (rule truthy_not_nullish)
  have k: "map fst (own_props authorizations) = keys"
    using keys nn by (simp add: object_keys_def)
  show named: "named_scheme authorizations key = Some (Obj [(key, Undefined)])"
    using key by (simp add: named_scheme_def get_Some nn
        convertAuthorization_unrecognised [OF entry type] set_prop_def)
  {
    fix out
    assume conv: "converter resource = Some (Obj out)"
    from converter_Some [OF conv] obtain p2 p3 where
      "convertAuthorizations authorizations p2 = Some p3"
      unfolding auths(1) by blast
    from convertAuthorizations_Some [OF auths(2) this] obtain schemes where
      s: "map_each (named_scheme authorizations) keys = Some schemes"
      unfolding k by blast
    from map_each_nth [OF s] i named have
      "length schemes = length keys" "schemes ! i = Obj [(key, Undefined)]"
      by auto
    moreover have "map_of out ''securitySchemes'' = Some (Arr schemes)"
      using converter_fields(4) [OF conv] auths(2) s unfolding auths(1) k by simp
    ultimately show "\<exists>schemes. map_of out ''securitySchemes'' = Some (Arr schemes)
             \<and> length schemes = length keys
             \<and> schemes ! i = Obj [(key, Undefined)]"
      by blast
  }
  {
    assume "converter resource = None"
    then have "nullish resource
      \<or> convertApis (field resource ''apis'') (info_props (field resource ''info'') []) = None
      \<or> (\<exists>ps. convertAuthorizations authorizations ps = None)"
      unfolding converter_eq_None auths(1) by auto
    then show "nullish resource
          \<or> (\<exists>ps. convertApis (field resource ''apis'') ps = None)
          \<or> (\<exists>j<length keys. keys ! j \<noteq> key
                 \<and> named_scheme authorizations (keys ! j) = None)"
    proof (elim disjE exE)
      assume "nullish resource"
      then show ?thesis by simp
    next
      assume "convertApis (field resource ''apis'') (info_props (field resource ''info'') []) = None"
      then show ?thesis by blast
    next
      fix ps
      assume "convertAuthorizations authorizations ps = None"
      then obtain k' where k': "k' \<in> set keys" "named_scheme authorizations k' = None"
        unfolding convertAuthorizations_eq_None k by auto
      then obtain j where "j < length keys" "keys ! j = k'"
        by (auto simp: in_set_conv_nth)
      with k'(2) named show ?thesis by auto
    qed
  }
qed

text \<open>C4 at a mapping with a basic-auth entry followed by an entry of type \<^verbatim>\<open>digest\<close>.\<close>

theorem unrecognised_type_gives_named_undefined_witness:
  "converter (Obj [(''authorizations'',
      Obj [(''basic'', Obj [(''type'', Str ''basicAuth'')]),
           (''custom'', Obj [(''type'', Str ''digest'')])])]) =
     Some (Obj [(''securitySchemes'',
       Arr [Obj [(''basic'', Obj [(''type'', Str ''Basic Authentication'')])],
            Obj [(''custom'', Undefined)]])])
   \<and> named_scheme
        (Obj [(''basic'', Obj [(''type'', Str ''basicAuth'')]),
              (''custom'', Obj [(''type'', Str ''digest'')])]) ''custom'' =
       Some (Obj [(''custom'', Undefined)])"
proof -
  have h: "converter (Obj [(''authorizations'',
      Obj [(''basic'', Obj [(''type'', Str ''basicAuth'')]),
           (''custom'', Obj [(''type'', Str ''digest'')])])]) =
     Some (Obj [(''securitySchemes'',
       Arr [Obj [(''basic'', Obj [(''type'', Str ''Basic Authentication'')])],
            Obj [(''custom'', Undefined)]])])"
    by code_simp
  have "named_scheme
        (Obj [(''basic'', Obj [(''type'', Str ''basicAuth'')]),
              (''custom'', Obj [(''type'', Str ''digest'')])]) ''custom'' =
       Some (Obj [(''custom'', Undefined)])"
    by (rule unrecognised_type_gives_named_undefined
          [where resource = "Obj [(''authorizations'',
              Obj [(''basic'', Obj [(''type'', Str ''basicAuth'')]),
                   (''custom'', Obj [(''type'', Str ''digest'')])])]"
             and keys = "[''basic'', ''custom'']" and i = 1, THEN conjunct1])
       (simp_all add: field_def object_keys_def inherited_def object_prototype_names_def)
  with h show ?thesis by simp
qed

subsection \<open>C5: the grant list\<close>

text \<open>
  C5 says that every key of \<^verbatim>\<open>grantTypes\<close> other than \<^verbatim>\<open>implicit\<close> and
  \<^verbatim>\<open>authorization_code\<close> contributes \<^verbatim>\<open>undefined\<close>. The element is
  \<^verbatim>\<open>GRANT_TYPE_MAP[grantType]\<close>, a read on an object literal: for a key such as
  \<^verbatim>\<open>constructor\<close> the read finds the property that every object inherits, and
  the element is that built-in value.
\<close>

theorem grants_counterexample:
  "convertOAuth2 (Obj [(''type'', Str ''oauth2''),
                       (''grantTypes'', Obj [(''constructor'', Obj [])])]) =
     Some (Obj [(''type'', Str ''OAuth 2.0''),
                (''settings'', Obj [(''authorizationGrants'', Arr [Inherited ''constructor''])])])"
  by code_simp

text \<open>
  C5, as amended: whenever the OAuth 2.0 converter returns,
  \<^verbatim>\<open>settings.authorizationGrants\<close> has exactly one element per key of
  \<^verbatim>\<open>grantTypes\<close>, in the order of the keys; the element is \<^verbatim>\<open>token\<close> for
  \<^verbatim>\<open>implicit\<close>, \<^verbatim>\<open>code\<close> for \<^verbatim>\<open>authorization_code\<close>, and \<^verbatim>\<open>undefined\<close>
  (not filtered out) for every other key that is not the name of a property inherited
  from \<^verbatim>\<open>Object.prototype\<close>.
\<close>

theorem grants_follow_keys:
  assumes "convertOAuth2 authorization = Some out"
    and "object_keys (field authorization ''grantTypes'') = Some keys"
  shows "\<exists>grants. field (field out ''settings'') ''authorizationGrants'' = Arr grants
     \<and> length grants = length keys
     \<and> (\<forall>i<length keys.
          (keys ! i = ''implicit'' \<longrightarrow> grants ! i = Str ''token'')
        \<and> (keys ! i = ''authorization_code'' \<longrightarrow> grants ! i = Str ''code'')
        \<and> (keys ! i \<noteq> ''implicit'' \<and> keys ! i \<noteq> ''authorization_code''
             \<and> keys ! i \<notin> set object_prototype_names \<longrightarrow> grants ! i = Undefined))"
proof -
  from assms(1) have out: "out = oauth2_of authorization"
    by (simp add: convertOAuth2_eq split: if_splits)
  from assms(2) have keys: "keys = map fst (own_props (field authorization ''grantTypes''))"
    by (auto simp: object_keys_def split: if_splits)
  have "field (field out ''settings'') ''authorizationGrants'' = Arr (map grant_of keys)"
    unfolding out field_oauth2_settings keys
    by (rule field_Obj) (simp add: map_of_oauth2_settings_grants grants_of_def)
  then show ?thesis
    by (simp add: grant_of_def inherited_def)
qed

text \<open>C5 at a \<^verbatim>\<open>grantTypes\<close> with the keys \<^verbatim>\<open>authorization_code\<close>, \<^verbatim>\<open>password\<close>, \<^verbatim>\<open>implicit\<close>.\<close>

theorem grants_follow_keys_witness:
  "convertOAuth2 (Obj [(''type'', Str ''oauth2''),
       (''grantTypes'', Obj [(''authorization_code'',
            Obj [(''tokenEndpoint'', Obj [(''url'', Str ''http://t'')]),
                 (''tokenRequestEndpoint'', Obj [(''url'', Str ''http://r'')])]),
          (''password'', Obj []),
          (''implicit'', Obj [])])]) =
     Some (Obj [(''type'', Str ''OAuth 2.0''),
       (''settings'', Obj [(''authorizationGrants'', Arr [Str ''code'', Undefined, Str ''token'']),
                           (''accessTokenUri'', Str ''http://t''),
                           (''authorizationUri'', Str ''http://r'')])])
   \<and> (\<exists>grants. field (field (Obj [(''type'', Str ''OAuth 2.0''),
       (''settings'', Obj [(''authorizationGrants'', Arr [Str ''code'', Undefined, Str ''token'']),
                           (''accessTokenUri'', Str ''http://t''),
                           (''authorizationUri'', Str ''http://r'')])]) ''settings'')
          ''authorizationGrants'' = Arr grants \<and> length grants = 3)"
proof -
  have h: "convertOAuth2 (Obj [(''type'', Str ''oauth2''),
       (''grantTypes'', Obj [(''authorization_code'',
            Obj [(''tokenEndpoint'', Obj [(''url'', Str ''http://t'')]),
                 (''tokenRequestEndpoint'', Obj [(''url'', Str ''http://r'')])]),
          (''password'', Obj []),
          (''implicit'', Obj [])])]) =
     Some (Obj [(''type'', Str ''OAuth 2.0''),
       (''settings'', Obj [(''authorizationGrants'', Arr [Str ''code'', Undefined, Str ''token'']),
                           (''accessTokenUri'', Str ''http://t''),
                           (''authorizationUri'', Str ''http://r'')])])"
    by code_simp
  have k: "object_keys (field (Obj [(''type'', Str ''oauth2''),
       (''grantTypes'', Obj [(''authorization_code'',
            Obj [(''tokenEndpoint'', Obj [(''url'', Str ''http://t'')]),
                 (''tokenRequestEndpoint'', Obj [(''url'', Str ''http://r'')])]),
          (''password'', Obj []),
          (''implicit'', Obj [])])]) ''grantTypes'') =
      Some [''authorization_code'', ''password'', ''implicit'']"
    by (simp add: field_def object_keys_def)
  from grants_follow_keys [OF h k] h show ?thesis by auto
qed

subsection \<open>C10: both grants set the authorization URI\<close>

text \<open>
  C10: when \<^verbatim>\<open>grantTypes\<close> has an implicit grant with a truthy
  \<^verbatim>\<open>loginEndpoint.url\<close> and an authorization-code grant, and the OAuth 2.0
  converter returns, \<^verbatim>\<open>settings.authorizationUri\<close> of the result is the
  \<^verbatim>\<open>tokenRequestEndpoint.url\<close> of the authorization-code grant: the implicit
  branch sets the property to the login URL, and the authorization-code branch, run
  on what the implicit branch leaves, sets it again.
\<close>

theorem code_grant_overwrites_authorization_uri:
  assumes "convertOAuth2 authorization = Some out"
    and "implicit = field (field authorization ''grantTypes'') ''implicit''"
    and "authCode = field (field authorization ''grantTypes'') ''authorization_code''"
    and "truthy implicit" and "truthy (field implicit ''loginEndpoint'')"
    and "truthy (field (field implicit ''loginEndpoint'') ''url'')"
    and "truthy authCode"
  shows "(\<exists>settings. field out ''settings'' = Obj settings
           \<and> map_of settings ''authorizationUri'' =
               Some (field (field authCode ''tokenRequestEndpoint'') ''url''))
    \<and> (\<forall>st d st' d' st'' d''.
          convertImplicit implicit st d = Some (st', d') \<and>
          convertAuthCode authCode st' d' = Some (st'', d'') \<longrightarrow>
          map_of st' ''authorizationUri'' = Some (field (field implicit ''loginEndpoint'') ''url'')
          \<and> map_of st'' ''authorizationUri'' =
               Some (field (field authCode ''tokenRequestEndpoint'') ''url''))"
proof -
  from assms(1) have out: "out = oauth2_of authorization"
    by (simp add: convertOAuth2_eq split: if_splits)
  have "map_of (oauth2_settings authorization) ''authorizationUri'' =
               Some (field (field authCode ''tokenRequestEndpoint'') ''url'')"
    unfolding oauth2_settings_def assms(3) [symmetric]
    by (rule map_of_authCode_settings_uri) (rule assms(7))
  then have final: "\<exists>settings. field out ''settings'' = Obj settings
           \<and> map_of settings ''authorizationUri'' =
               Some (field (field authCode ''tokenRequestEndpoint'') ''url'')"
    unfolding out field_oauth2_settings by blast
  have steps: "map_of st' ''authorizationUri'' = Some (field (field implicit ''loginEndpoint'') ''url'')
          \<and> map_of st'' ''authorizationUri'' =
               Some (field (field authCode ''tokenRequestEndpoint'') ''url'')"
    if "convertImplicit implicit st d = Some (st', d') \<and>
          convertAuthCode authCode st' d' = Some (st'', d'')" for st d st' d' st'' d''
  proof -
    from that have "st' = implicit_settings implicit st" "st'' = authCode_settings authCode st'"
      by (simp_all add: convertImplicit_eq convertAuthCode_eq split: if_splits)
    then show ?thesis
      using assms(4-7) by (simp add: map_of_authCode_settings_uri map_of_implicit_settings_uri)
  qed
  from final steps show ?thesis by blast
qed

text \<open>C10 at an authorization with both grants.\<close>

theorem code_grant_overwrites_authorization_uri_witness:
  "convertOAuth2 (Obj [(''type'', Str ''oauth2''),
       (''grantTypes'', Obj [
          (''implicit'', Obj [(''loginEndpoint'', Obj [(''url'', Str ''http://login'')])]),
          (''authorization_code'',
            Obj [(''tokenEndpoint'', Obj [(''url'', Str ''http://token'')]),
                 (''tokenRequestEndpoint'', Obj [(''url'', Str ''http://request'')])])])]) =
     Some (Obj [(''type'', Str ''OAuth 2.0''),
       (''settings'', Obj [(''authorizationGrants'', Arr [Str ''token'', Str ''code'']),
                           (''authorizationUri'', Str ''http://request''),
                           (''accessTokenUri'', Str ''http://token'')])])
   \<and> (\<exists>settings. field (Obj [(''type'', Str ''OAuth 2.0''),
       (''settings'', Obj [(''authorizationGrants'', Arr [Str ''token'', Str ''code'']),
                           (''authorizationUri'', Str ''http://request''),
                           (''accessTokenUri'', Str ''http://token'')])]) ''settings'' = Obj settings
         \<and> map_of settings ''authorizationUri'' = Some (Str ''http://request''))"
proof -
  have h: "convertOAuth2 (Obj [(''type'', Str ''oauth2''),
       (''grantTypes'', Obj [
          (''implicit'', Obj [(''loginEndpoint'', Obj [(''url'', Str ''http://login'')])]),
          (''authorization_code'',
            Obj [(''tokenEndpoint'', Obj [(''url'', Str ''http://token'')]),
                 (''tokenRequestEndpoint'', Obj [(''url'', Str ''http://request'')])])])]) =
     Some (Obj [(''type'', Str ''OAuth 2.0''),
       (''settings'', Obj [(''authorizationGrants'', Arr [Str ''token'', Str ''code'']),
                           (''authorizationUri'', Str ''http://request''),
                           (''accessTokenUri'', Str ''http://token'')])])"
    by code_simp
  have "\<exists>settings. field (Obj [(''type'', Str ''OAuth 2.0''),
       (''settings'', Obj [(''authorizationGrants'', Arr [Str ''token'', Str ''code'']),
                           (''authorizationUri'', Str ''http://request''),
                           (''accessTokenUri'', Str ''http://token'')])]) ''settings'' = Obj settings
         \<and> map_of settings ''authorizationUri'' = Some (Str ''http://request'')"
    using code_grant_overwrites_authorization_uri [OF h refl refl, THEN conjunct1]
    by (simp add: field_def)
  with h show ?thesis by simp
qed

subsection \<open>C6: scopes\<close>

text \<open>
  C6: whenever the OAuth 2.0 converter returns, (1) for the scopes
  \<^verbatim>\<open>[{scope:'read'}, {scope:'write', description:'Write access'}]\<close> the result has
  \<^verbatim>\<open>settings.scopes\<close> equal to \<^verbatim>\<open>['read','write']\<close>, and its description starts
  with the entry \<^verbatim>\<open>Available scopes: \<close> followed by the entry
  \<^verbatim>\<open>* write: Write access\<close> (the entries of the description are joined by a blank
  line), whatever the grants add after them: the block of scope lines is the line of
  \<^verbatim>\<open>write\<close> alone; (2) for every non-empty array of scopes,
  \<^verbatim>\<open>settings.scopes\<close> is the list of the scope names in order, and the block of
  scope lines has one line, \<^verbatim>\<open>* name: description\<close>, for each scope with a truthy
  description and none for the others; without any such scope the description has no
  scope entry at all.
\<close>

theorem scopes_names_and_described_lines:
  assumes "convertOAuth2 authorization = Some out"
  shows "(field authorization ''scopes'' =
            Arr [Obj [(''scope'', Str ''read'')],
                 Obj [(''scope'', Str ''write''), (''description'', Str ''Write access'')]] \<longrightarrow>
          field (field out ''settings'') ''scopes'' = Arr [Str ''read'', Str ''write'']
          \<and> (\<exists>rest. field out ''description'' =
                Str (join ''\<newline>\<newline>''
                       (''Available scopes: '' # ''* write: Write access'' # rest))))
    \<and> (\<forall>xs. field authorization ''scopes'' = Arr xs \<and> xs \<noteq> [] \<longrightarrow>
          field (field out ''settings'') ''scopes'' = Arr (map (\<lambda>scope. field scope ''scope'') xs)
          \<and> (let rest = implicit_lines (field (field authorization ''grantTypes'') ''implicit'')
                       @ authCode_lines (field (field authorization ''grantTypes'')
                                           ''authorization_code'')
             in field out ''description'' =
                  (if filter described xs = []
                   then (if rest = [] then Undefined else Str (join ''\<newline>\<newline>'' rest))
                   else Str (join ''\<newline>\<newline>''
                          (''Available scopes: ''
                           # join ''\<newline>'' (map scope_line (filter described xs))
                           # rest)))))"
proof -
  from assms have out: "out = oauth2_of authorization"
    by (simp add: convertOAuth2_eq split: if_splits)
  have general: "field (field out ''settings'') ''scopes'' = Arr (map (\<lambda>scope. field scope ''scope'') xs)
          \<and> field out ''description'' =
                  (if filter described xs = []
                   then (if implicit_lines (field (field authorization ''grantTypes'') ''implicit'')
                       @ authCode_lines (field (field authorization ''grantTypes'')
                                           ''authorization_code'') = [] then Undefined else Str (join ''\<newline>\<newline>'' (implicit_lines (field (field authorization ''grantTypes'') ''implicit'')
                       @ authCode_lines (field (field authorization ''grantTypes'')
                                           ''authorization_code''))))
                   else Str (join ''\<newline>\<newline>''
                          (''Available scopes: ''
                           # join ''\<newline>'' (map scope_line (filter described xs))
                           # implicit_lines (field (field authorization ''grantTypes'') ''implicit'')
                       @ authCode_lines (field (field authorization ''grantTypes'')
                                           ''authorization_code''))))"
    if xs: "field authorization ''scopes'' = Arr xs" "xs \<noteq> []" for xs
  proof -
    have given: "scopes_given (Arr xs)"
      using xs(2) by (simp add: scopes_given_def)
    have "field (field out ''settings'') ''scopes'' = Arr (map (\<lambda>scope. field scope ''scope'') xs)"
      unfolding out field_oauth2_settings
      by (rule field_Obj) (simp add: map_of_oauth2_settings_scopes xs(1) given scope_names_def)
    moreover have "oauth2_lines authorization =
        (if filter described xs = [] then []
         else [''Available scopes: '', join ''\<newline>'' (map scope_line (filter described xs))])
        @ implicit_lines (field (field authorization ''grantTypes'') ''implicit'')
        @ authCode_lines (field (field authorization ''grantTypes'') ''authorization_code'')"
      by (simp add: oauth2_lines_def scopes_lines_def xs(1) given scope_block_def)
    ultimately show ?thesis
      unfolding out field_oauth2_description by simp
  qed
  have example: "field (field out ''settings'') ''scopes'' = Arr [Str ''read'', Str ''write'']
          \<and> (\<exists>rest. field out ''description'' =
                Str (join ''\<newline>\<newline>''
                       (''Available scopes: '' # ''* write: Write access'' # rest)))"
    if "field authorization ''scopes'' =
            Arr [Obj [(''scope'', Str ''read'')],
                 Obj [(''scope'', Str ''write''), (''description'', Str ''Write access'')]]"
  proof -
    from general [OF that] show ?thesis
      by (intro conjI exI [of _ "implicit_lines (field (field authorization ''grantTypes'') ''implicit'')
                       @ authCode_lines (field (field authorization ''grantTypes'')
                                           ''authorization_code'')"])
         (simp_all add: described_def scope_line_def text_of_def inherited_def
            object_prototype_names_def field_def [of "Obj [(''scope'', Str ''read'')]"]
            field_def [of "Obj [(''scope'', Str ''write''), (''description'', Str ''Write access'')]"])
  qed
  from general example show ?thesis unfolding Let_def by blast
qed

text \<open>C6 at the authorization of the example, with no grant.\<close>

theorem scopes_names_and_described_lines_witness:
  "convertOAuth2 (Obj [(''type'', Str ''oauth2''),
      (''scopes'', Arr [Obj [(''scope'', Str ''read'')],
                        Obj [(''scope'', Str ''write''), (''description'', Str ''Write access'')]]),
      (''grantTypes'', Obj [])]) =
     Some (Obj [(''type'', Str ''OAuth 2.0''),
       (''settings'', Obj [(''authorizationGrants'', Arr []),
                           (''scopes'', Arr [Str ''read'', Str ''write''])]),
       (''description'', Str ''Available scopes: \<newline>\<newline>* write: Write access'')])
   \<and> field (field (Obj [(''type'', Str ''OAuth 2.0''),
       (''settings'', Obj [(''authorizationGrants'', Arr []),
                           (''scopes'', Arr [Str ''read'', Str ''write''])]),
       (''description'', Str ''Available scopes: \<newline>\<newline>* write: Write access'')])
         ''settings'') ''scopes'' = Arr [Str ''read'', Str ''write'']"
proof -
  have h: "convertOAuth2 (Obj [(''type'', Str ''oauth2''),
      (''scopes'', Arr [Obj [(''scope'', Str ''read'')],
                        Obj [(''scope'', Str ''write''), (''description'', Str ''Write access'')]]),
      (''grantTypes'', Obj [])]) =
     Some (Obj [(''type'', Str ''OAuth 2.0''),
       (''settings'', Obj [(''authorizationGrants'', Arr []),
                           (''scopes'', Arr [Str ''read'', Str ''write''])]),
       (''description'', Str ''Available scopes: \<newline>\<newline>* write: Write access'')])"
    by code_simp
  have s: "field (Obj [(''type'', Str ''oauth2''),
      (''scopes'', Arr [Obj [(''scope'', Str ''read'')],
                        Obj [(''scope'', Str ''write''), (''description'', Str ''Write access'')]]),
      (''grantTypes'', Obj [])]) ''scopes'' =
      Arr [Obj [(''scope'', Str ''read'')],
           Obj [(''scope'', Str ''write''), (''description'', Str ''Write access'')]]"
    by (simp add: field_def)
  from scopes_names_and_described_lines [OF h, THEN conjunct1, rule_format, OF s, THEN conjunct1] h
  show ?thesis by simp
qed

subsection \<open>C7: a client-id name that is not the default\<close>

text \<open>
  C7 says that an authorization-code grant with the client-id name \<^verbatim>\<open>app_id\<close> and
  every other override at its default gives a description of exactly one line. The
  claim leaves the scopes open, and a scope with a description adds its two entries
  in front of that line.
\<close>

theorem client_id_override_counterexample:
  \<open>convertOAuth2 (Obj [(''type'', Str ''oauth2''),
       (''scopes'', Arr [Obj [(''scope'', Str ''read''), (''description'', Str ''Read access'')]]),
       (''grantTypes'', Obj [(''authorization_code'',
          Obj [(''tokenEndpoint'', Obj [(''url'', Str ''http://token'')]),
               (''tokenRequestEndpoint'',
                Obj [(''url'', Str ''http://request''), (''clientIdName'', Str ''app_id'')])])])]) =
     Some (Obj [(''type'', Str ''OAuth 2.0''),
       (''settings'', Obj [(''authorizationGrants'', Arr [Str ''code'']),
                           (''scopes'', Arr [Str ''read'']),
                           (''accessTokenUri'', Str ''http://token''),
                           (''authorizationUri'', Str ''http://request'')]),
       (''description'',
        Str (''Available scopes: '' @ ''\<newline>\<newline>''
           @ ''* read: Read access'' @ ''\<newline>\<newline>''
           @ ''The code grant uses "app_id" as the parameter for passing the client id.''))])\<close>
  by code_simp

text \<open>
  C7, as amended: for an OAuth 2.0 authorization with an authorization-code grant
  (its \<^verbatim>\<open>tokenEndpoint\<close> and \<^verbatim>\<open>tokenRequestEndpoint\<close> present), whose
  client-secret name is absent or \<^verbatim>\<open>client_secret\<close>, whose code-grant token name
  is absent or \<^verbatim>\<open>access_code\<close>, whose implicit grant (if any) has a token name
  that is absent or \<^verbatim>\<open>access_token\<close>, and whose scopes (if any) carry no
  description, the converter returns, and: with the client-id name \<^verbatim>\<open>app_id\<close> the
  description of the result is the single line
  \<^verbatim>\<open>The code grant uses "app_id" as the parameter for passing the client id.\<close>;
  with the client-id name \<^verbatim>\<open>client_id\<close>, or none, the result has no description.
  The four defaults are not interchangeable: a client-id name \<^verbatim>\<open>client_secret\<close>, a
  client-secret name \<^verbatim>\<open>client_id\<close>, a code-grant token name
  \<^verbatim>\<open>access_token\<close> and an implicit token name \<^verbatim>\<open>access_code\<close> each get their
  line.
\<close>

theorem client_id_override_single_line:
  assumes a: "\<not> nullish authorization"
    and g: "grantTypes = field authorization ''grantTypes''"
    and i: "implicit = field grantTypes ''implicit''"
    and c: "authCode = field grantTypes ''authorization_code''" "truthy authCode"
    and te: "tokenEndpoint = field authCode ''tokenEndpoint''" "\<not> nullish tokenEndpoint"
    and tre: "tokenRequestEndpoint = field authCode ''tokenRequestEndpoint''"
       "\<not> nullish tokenRequestEndpoint"
    and cs: "\<not> truthy (field tokenRequestEndpoint ''clientSecretName'')
             \<or> field tokenRequestEndpoint ''clientSecretName'' = Str ''client_secret''"
    and tn: "\<not> truthy (field tokenEndpoint ''tokenName'')
             \<or> field tokenEndpoint ''tokenName'' = Str ''access_code''"
    and itn: "\<not> truthy implicit \<or> \<not> truthy (field implicit ''tokenName'')
             \<or> field implicit ''tokenName'' = Str ''access_token''"
    and sc: "\<not> truthy (field authorization ''scopes'')
             \<or> (\<exists>xs. field authorization ''scopes'' = Arr xs
                    \<and> (\<forall>s\<in>set xs. \<not> nullish s \<and> \<not> truthy (field s ''description'')))"
  shows \<open>(field tokenRequestEndpoint ''clientIdName'' = Str ''app_id'' \<longrightarrow>
           (\<exists>settings. convertOAuth2 authorization =
              Some (Obj [(''type'', Str ''OAuth 2.0''), (''settings'', Obj settings),
                         (''description'',
                          Str ''The code grant uses "app_id" as the parameter for passing the client id.'')])))
    \<and> (field tokenRequestEndpoint ''clientIdName'' = Str ''client_id''
         \<or> \<not> truthy (field tokenRequestEndpoint ''clientIdName'') \<longrightarrow>
           (\<exists>settings. convertOAuth2 authorization =
              Some (Obj [(''type'', Str ''OAuth 2.0''), (''settings'', Obj settings)])))
    \<and> convertOAuth2 (Obj [(''type'', Str ''oauth2''),
          (''grantTypes'', Obj [
             (''implicit'', Obj [(''tokenName'', Str ''access_code'')]),
             (''authorization_code'',
               Obj [(''tokenEndpoint'', Obj [(''url'', Str ''http://token''),
                                             (''tokenName'', Str ''access_token'')]),
                    (''tokenRequestEndpoint'',
                     Obj [(''url'', Str ''http://request''),
                          (''clientIdName'', Str ''client_secret''),
                          (''clientSecretName'', Str ''client_id'')])])])]) =
        Some (Obj [(''type'', Str ''OAuth 2.0''),
          (''settings'', Obj [(''authorizationGrants'', Arr [Str ''token'', Str ''code'']),
                              (''accessTokenUri'', Str ''http://token''),
                              (''authorizationUri'', Str ''http://request'')]),
          (''description'',
           Str (''The token grant uses "access_code" as the token name.''
              @ ''\<newline>\<newline>''
              @ ''The code grant uses "client_secret" as the parameter for passing the client id.''
              @ ''\<newline>\<newline>''
              @ ''The code grant uses "client_id" as the parameter for passing the client secret.''
              @ ''\<newline>\<newline>''
              @ ''The code grant uses "access_token" as the parameter for passing the authorization token.''))])\<close>
proof (intro conjI impI)
  have gn: "\<not> nullish grantTypes"
    using c field_nullish [of grantTypes "''authorization_code''"]
    by (auto simp: object_prototype_names_def)
  have sok: "scopes_ok (field authorization ''scopes'')"
    and sl: "scopes_lines (field authorization ''scopes'') = []"
    using sc
    by (auto simp: scopes_ok_def scopes_lines_def scopes_given_def scope_block_def scope_ok_def
        described_def list_all_iff filter_empty_conv)
  have iok: "implicit_ok implicit" and il: "implicit_lines implicit = []"
    using itn by (auto simp: implicit_ok_def implicit_lines_def overrides_def)
  {
    assume cid: "field tokenRequestEndpoint ''clientIdName'' = Str ''app_id''"
    have cok: "authCode_ok authCode"
      using c(2) te tre cid cs tn
      by (auto simp: authCode_ok_def overrides_def printable_def Let_def)
    have cl: \<open>authCode_lines authCode =
        [''The code grant uses "app_id" as the parameter for passing the client id.'']\<close>
      using c(2) te(1) tre(1) cid cs tn
      by (auto simp: authCode_lines_def override_line_def overrides_def text_of_def)
    have ok: "oauth2_ok authorization"
      using a gn sok iok cok unfolding oauth2_ok_def g i c(1) by simp
    have lines: \<open>oauth2_lines authorization =
        [''The code grant uses "app_id" as the parameter for passing the client id.'']\<close>
      using sl il cl unfolding oauth2_lines_def g i c(1) by simp
    show \<open>\<exists>settings. convertOAuth2 authorization =
              Some (Obj [(''type'', Str ''OAuth 2.0''), (''settings'', Obj settings),
                         (''description'',
                          Str ''The code grant uses "app_id" as the parameter for passing the client id.'')])\<close>
      by (simp add: convertOAuth2_eq ok oauth2_of_def lines)
  }
  {
    assume cid: "field tokenRequestEndpoint ''clientIdName'' = Str ''client_id''
         \<or> \<not> truthy (field tokenRequestEndpoint ''clientIdName'')"
    have cok: "authCode_ok authCode"
      using c(2) te tre cid cs tn
      by (auto simp: authCode_ok_def overrides_def printable_def Let_def)
    have cl: "authCode_lines authCode = []"
      using c(2) te(1) tre(1) cid cs tn
      by (auto simp: authCode_lines_def override_line_def overrides_def)
    have ok: "oauth2_ok authorization"
      using a gn sok iok cok unfolding oauth2_ok_def g i c(1) by simp
    have lines: "oauth2_lines authorization = []"
      using sl il cl unfolding oauth2_lines_def g i c(1) by simp
    show "\<exists>settings. convertOAuth2 authorization =
              Some (Obj [(''type'', Str ''OAuth 2.0''), (''settings'', Obj settings)])"
      by (simp add: convertOAuth2_eq ok oauth2_of_def lines)
  }
  show \<open>convertOAuth2 (Obj [(''type'', Str ''oauth2''),
          (''grantTypes'', Obj [
             (''implicit'', Obj [(''tokenName'', Str ''access_code'')]),
             (''authorization_code'',
               Obj [(''tokenEndpoint'', Obj [(''url'', Str ''http://token''),
                                             (''tokenName'', Str ''access_token'')]),
                    (''tokenRequestEndpoint'',
                     Obj [(''url'', Str ''http://request''),
                          (''clientIdName'', Str ''client_secret''),
                          (''clientSecretName'', Str ''client_id'')])])])]) =
        Some (Obj [(''type'', Str ''OAuth 2.0''),
          (''settings'', Obj [(''authorizationGrants'', Arr [Str ''token'', Str ''code'']),
                              (''accessTokenUri'', Str ''http://token''),
                              (''authorizationUri'', Str ''http://request'')]),
          (''description'',
           Str (''The token grant uses "access_code" as the token name.''
              @ ''\<newline>\<newline>''
              @ ''The code grant uses "client_secret" as the parameter for passing the client id.''
              @ ''\<newline>\<newline>''
              @ ''The code grant uses "client_id" as the parameter for passing the client secret.''
              @ ''\<newline>\<newline>''
              @ ''The code grant uses "access_token" as the parameter for passing the authorization token.''))])\<close>
    by code_simp
qed

text \<open>C7 at an authorization with the one override and nothing else.\<close>

theorem client_id_override_single_line_witness:
  \<open>convertOAuth2 (Obj [(''type'', Str ''oauth2''),
       (''grantTypes'', Obj [(''authorization_code'',
          Obj [(''tokenEndpoint'', Obj [(''url'', Str ''http://token'')]),
               (''tokenRequestEndpoint'',
                Obj [(''url'', Str ''http://request''), (''clientIdName'', Str ''app_id'')])])])]) =
     Some (Obj [(''type'', Str ''OAuth 2.0''),
       (''settings'', Obj [(''authorizationGrants'', Arr [Str ''code'']),
                           (''accessTokenUri'', Str ''http://token''),
                           (''authorizationUri'', Str ''http://request'')]),
       (''description'',
        Str ''The code grant uses "app_id" as the parameter for passing the client id.'')])
   \<and> (\<exists>settings. convertOAuth2 (Obj [(''type'', Str ''oauth2''),
       (''grantTypes'', Obj [(''authorization_code'',
          Obj [(''tokenEndpoint'', Obj [(''url'', Str ''http://token'')]),
               (''tokenRequestEndpoint'',
                Obj [(''url'', Str ''http://request''), (''clientIdName'', Str ''app_id'')])])])]) =
          Some (Obj [(''type'', Str ''OAuth 2.0''), (''settings'', Obj settings),
                     (''description'',
                      Str ''The code grant uses "app_id" as the parameter for passing the client id.'')]))\<close>
proof (rule conjI)
  show \<open>convertOAuth2 (Obj [(''type'', Str ''oauth2''),
       (''grantTypes'', Obj [(''authorization_code'',
          Obj [(''tokenEndpoint'', Obj [(''url'', Str ''http://token'')]),
               (''tokenRequestEndpoint'',
                Obj [(''url'', Str ''http://request''), (''clientIdName'', Str ''app_id'')])])])]) =
     Some (Obj [(''type'', Str ''OAuth 2.0''),
       (''settings'', Obj [(''authorizationGrants'', Arr [Str ''code'']),
                           (''accessTokenUri'', Str ''http://token''),
                           (''authorizationUri'', Str ''http://request'')]),
       (''description'',
        Str ''The code grant uses "app_id" as the parameter for passing the client id.'')])\<close>
    by code_simp
next
  show \<open>\<exists>settings. convertOAuth2 (Obj [(''type'', Str ''oauth2''),
       (''grantTypes'', Obj [(''authorization_code'',
          Obj [(''tokenEndpoint'', Obj [(''url'', Str ''http://token'')]),
               (''tokenRequestEndpoint'',
                Obj [(''url'', Str ''http://request''), (''clientIdName'', Str ''app_id'')])])])]) =
          Some (Obj [(''type'', Str ''OAuth 2.0''), (''settings'', Obj settings),
                     (''description'',
                      Str ''The code grant uses "app_id" as the parameter for passing the client id.'')])\<close>
    by (rule client_id_override_single_line
          [OF _ refl refl refl _ refl _ refl, THEN conjunct1, THEN mp])
       (simp_all add: field_def inherited_def object_prototype_names_def)
qed

subsection \<open>C8: the API-key scheme\<close>




subsection \<open>C1: when the converter throws\<close>

text \<open>
  C1 says that the converter never throws, in particular not for an authorization of
  type \<^verbatim>\<open>oauth2\<close> without \<^verbatim>\<open>grantTypes\<close>. There
  \<^verbatim>\<open>authorization.grantTypes.implicit\<close> reads a property of \<^verbatim>\<open>undefined\<close>.
\<close>

theorem converter_counterexample:
  "converter (Obj [(''authorizations'',
      Obj [(''oauth'', Obj [(''type'', Str ''oauth2'')])])]) = None"
  by code_simp

text \<open>
  C1, as amended: the converter performs no validation, and it returns a document
  exactly for the inputs of the shape \<open>document_ok\<close>, throwing on all others:
  the document is neither \<^verbatim>\<open>null\<close> nor \<^verbatim>\<open>undefined\<close>; \<^verbatim>\<open>apis\<close>, when
  truthy, is an array without \<^verbatim>\<open>null\<close> or \<^verbatim>\<open>undefined\<close> elements; every entry
  of a truthy \<^verbatim>\<open>authorizations\<close> is neither \<^verbatim>\<open>null\<close> nor \<^verbatim>\<open>undefined\<close>; an
  entry of type \<^verbatim>\<open>oauth2\<close> has a \<^verbatim>\<open>grantTypes\<close> that is neither, scopes that
  (when truthy and of truthy length) are an array of scopes that are neither, an
  authorization-code grant that (when truthy) has a \<^verbatim>\<open>tokenEndpoint\<close> and a
  \<^verbatim>\<open>tokenRequestEndpoint\<close> that are neither, and every value that goes into a
  description line can be converted to a string; an entry of type \<^verbatim>\<open>apiKey\<close>
  has a \<^verbatim>\<open>passAs\<close>, and where the location is found a \<^verbatim>\<open>keyname\<close>, that can
  be converted to a property name. Whenever the converter returns, each optional
  section that is absent (falsy) contributes nothing: no \<^verbatim>\<open>title\<close> and no
  \<^verbatim>\<open>documentation\<close> without \<^verbatim>\<open>info\<close>, no \<^verbatim>\<open>resources\<close> without
  \<^verbatim>\<open>apis\<close>, no \<^verbatim>\<open>securitySchemes\<close> without \<^verbatim>\<open>authorizations\<close>, no
  \<^verbatim>\<open>version\<close> without \<^verbatim>\<open>apiVersion\<close>.
\<close>

theorem converter_returns_iff_document_ok:
  "((\<exists>out. converter resource = Some (Obj out)) \<longleftrightarrow> document_ok resource)
   \<and> (\<forall>out. converter resource = Some (Obj out) \<longrightarrow>
        (\<not> truthy (field resource ''info'') \<longrightarrow>
           ''title'' \<notin> fst ` set out \<and> ''documentation'' \<notin> fst ` set out)
      \<and> (\<not> truthy (field resource ''apis'') \<longrightarrow> ''resources'' \<notin> fst ` set out)
      \<and> (\<not> truthy (field resource ''authorizations'') \<longrightarrow> ''securitySchemes'' \<notin> fst ` set out)
      \<and> (\<not> truthy (field resource ''apiVersion'') \<longrightarrow> ''version'' \<notin> fst ` set out))"
proof (rule conjI)
  show "(\<exists>out. converter resource = Some (Obj out)) \<longleftrightarrow> document_ok resource"
  proof
    assume "\<exists>out. converter resource = Some (Obj out)"
    then have "converter resource \<noteq> None" by auto
    then show "document_ok resource" by (simp add: converter_eq_None_iff)
  next
    assume "document_ok resource"
    then have "converter resource \<noteq> None" by (simp add: converter_eq_None_iff)
    then obtain v where "converter resource = Some v" by auto
    with converter_Obj [OF this] show "\<exists>out. converter resource = Some (Obj out)" by auto
  qed
next
  show "\<forall>out. converter resource = Some (Obj out) \<longrightarrow>
        (\<not> truthy (field resource ''info'') \<longrightarrow>
           ''title'' \<notin> fst ` set out \<and> ''documentation'' \<notin> fst ` set out)
      \<and> (\<not> truthy (field resource ''apis'') \<longrightarrow> ''resources'' \<notin> fst ` set out)
      \<and> (\<not> truthy (field resource ''authorizations'') \<longrightarrow> ''securitySchemes'' \<notin> fst ` set out)
      \<and> (\<not> truthy (field resource ''apiVersion'') \<longrightarrow> ''version'' \<notin> fst ` set out)"
  proof (intro allI impI)
    fix out
    assume c: "converter resource = Some (Obj out)"
    note f = converter_fields [OF c]
    show "(\<not> truthy (field resource ''info'') \<longrightarrow>
           ''title'' \<notin> fst ` set out \<and> ''documentation'' \<notin> fst ` set out)
      \<and> (\<not> truthy (field resource ''apis'') \<longrightarrow> ''resources'' \<notin> fst ` set out)
      \<and> (\<not> truthy (field resource ''authorizations'') \<longrightarrow> ''securitySchemes'' \<notin> fst ` set out)
      \<and> (\<not> truthy (field resource ''apiVersion'') \<longrightarrow> ''version'' \<notin> fst ` set out)"
      by (simp add: key_present f(1-5))
  qed
qed

text \<open>C1 at a document with a version and one API-key authorization, and nothing else.\<close>

theorem converter_returns_iff_document_ok_witness:
  "converter (Obj [(''apiVersion'', Str ''1.0''),
                   (''authorizations'', Obj [(''key'', Obj [(''type'', Str ''apiKey'')])])]) =
     Some (Obj [(''securitySchemes'',
                 Arr [Obj [(''key'', Obj [(''type'', Str ''x-api-key''), (''describedBy'', Obj [])])]]),
                (''version'', Str ''1.0'')])
   \<and> document_ok (Obj [(''apiVersion'', Str ''1.0''),
                   (''authorizations'', Obj [(''key'', Obj [(''type'', Str ''apiKey'')])])])"
proof -
  have h: "converter (Obj [(''apiVersion'', Str ''1.0''),
                   (''authorizations'', Obj [(''key'', Obj [(''type'', Str ''apiKey'')])])]) =
     Some (Obj [(''securitySchemes'',
                 Arr [Obj [(''key'', Obj [(''type'', Str ''x-api-key''), (''describedBy'', Obj [])])]]),
                (''version'', Str ''1.0'')])"
    by code_simp
  then have "\<exists>out. converter (Obj [(''apiVersion'', Str ''1.0''),
                   (''authorizations'', Obj [(''key'', Obj [(''type'', Str ''apiKey'')])])]) =
       Some (Obj out)"
    by simp
  with converter_returns_iff_document_ok [THEN conjunct1] h show ?thesis by blast
qed

end
